theory Spec2Isabelle
  imports Main "HOL-Library.Word" "HOL-Library.Sublist"
begin

section \<open>Data model\<close>

text \<open>
  The telemetry sink of \<^verbatim>\<open>src/unnamed/part_000\<close>. A report is the struct
  \<^verbatim>\<open>StatsReport\<close>: \<^verbatim>\<open>string\<close> fields are strings, \<^verbatim>\<open>int64\<close> is a 64-bit word and a
  \<^verbatim>\<open>*int64\<close> is an optional 64-bit word (\<open>None\<close> is the nil pointer).
\<close>

type_synonym int64 = "64 word"

record StatsReport =
  Homeserver :: string
  LocalTimestamp :: int64
  RemoteTimestamp :: "int64 option"
  UptimeSeconds :: "int64 option"
  TotalUsers :: "int64 option"
  TotalNonBridgedUsers :: "int64 option"
  TotalRoomCount :: "int64 option"
  DailyActiveUsers :: "int64 option"
  DailyMessages :: "int64 option"
  DailySentMessages :: "int64 option"
  DailyActiveRooms :: "int64 option"
  RemoteAddr :: string
  XForwardedFor :: string
  UserAgent :: string

text \<open>
  The \<^verbatim>\<open>interface{}\<close> values that \<^verbatim>\<open>Save\<close> collects for binding: a string, an
  \<^verbatim>\<open>int64\<close>, or a non-nil \<^verbatim>\<open>*int64\<close> (\<^verbatim>\<open>appendIfNonNil\<close> appends the pointer itself;
  \<open>GoInt64Ptr v\<close> is a pointer to a cell holding \<open>v\<close>, which \<^verbatim>\<open>database/sql\<close> binds
  as the integer \<open>v\<close>).
\<close>

datatype arg = GoString string | GoInt64 int64 | GoInt64Ptr int64

text \<open>Errors, as values: what the JSON decoder and the database driver can return.\<close>

datatype error =
    EOF
  | SyntaxError
  | UnmarshalTypeError string
  | DriverError string

section \<open>The database handle\<close>

text \<open>
  The SQL engine is outside the program. \<^verbatim>\<open>DB.Exec(query, args...)\<close> is a function
  of the engine's state that returns the error (\<open>None\<close> is \<^verbatim>\<open>nil\<close>) and the new
  state. The server state keeps, beside the engine's state, the list of the
  calls made to \<^verbatim>\<open>Exec\<close> and the lines written by \<^verbatim>\<open>log.Printf\<close> (each line as
  the description and the error it formats).
\<close>

type_synonym 'db Exec = "string \<Rightarrow> arg list \<Rightarrow> 'db \<Rightarrow> error option \<times> 'db"

record 'db Server =
  DB :: 'db
  Execs :: "(string \<times> arg list) list"
  Log :: "(string \<times> error) list"

definition DB_Exec ::
  "'db Exec \<Rightarrow> string \<Rightarrow> arg list \<Rightarrow> 'db Server \<Rightarrow> error option \<times> 'db Server" where
  "DB_Exec exec query args s =
     (let (err, db') = exec query args (DB s)
      in (err, s\<lparr>DB := db', Execs := Execs s @ [(query, args)]\<rparr>))"

section \<open>Library functions used by Save\<close>

text \<open>\<^verbatim>\<open>strings.Join\<close>.\<close>

fun Join :: "string list \<Rightarrow> string \<Rightarrow> string" where
  "Join [] sep = []"
| "Join [x] sep = x"
| "Join (x # y # ys) sep = x @ sep @ Join (y # ys) sep"

text \<open>The verb \<^verbatim>\<open>%d\<close> of \<^verbatim>\<open>fmt.Sprintf\<close> on a non-negative integer: its decimal digits.\<close>

definition digit :: "nat \<Rightarrow> char" where
  "digit n = ''0123456789'' ! n"

fun Itoa :: "nat \<Rightarrow> string" where
  "Itoa n = (if n < 10 then [digit n] else Itoa (n div 10) @ [digit (n mod 10)])"

declare Itoa.simps [simp del]

section \<open>Save\<close>

definition appendIfNonNil ::
  "string list \<Rightarrow> arg list \<Rightarrow> string \<Rightarrow> int64 option \<Rightarrow> string list \<times> arg list" where
  "appendIfNonNil cols vals name v =
     (case v of
        Some x \<Rightarrow> (cols @ [name], vals @ [GoInt64Ptr x])
      | None \<Rightarrow> (cols, vals))"

definition appendIfNonEmpty ::
  "string list \<Rightarrow> arg list \<Rightarrow> string \<Rightarrow> string \<Rightarrow> string list \<times> arg list" where
  "appendIfNonEmpty cols vals name v =
     (if v \<noteq> [] then (cols @ [name], vals @ [GoString v]) else (cols, vals))"

text \<open>Lines 86 to 99 of \<^verbatim>\<open>Save\<close>: the column list and the value list.\<close>

definition Save_cols_vals :: "StatsReport \<Rightarrow> string list \<times> arg list" where
  "Save_cols_vals sr =
     (let cols = [''homeserver'', ''local_timestamp'', ''remote_addr''];
          vals = [GoString (Homeserver sr), GoInt64 (LocalTimestamp sr), GoString (RemoteAddr sr)];
          (cols, vals) = appendIfNonNil cols vals ''remote_timestamp'' (RemoteTimestamp sr);
          (cols, vals) = appendIfNonNil cols vals ''uptime_seconds'' (UptimeSeconds sr);
          (cols, vals) = appendIfNonNil cols vals ''total_users'' (TotalUsers sr);
          (cols, vals) = appendIfNonNil cols vals ''total_nonbridged_users'' (TotalNonBridgedUsers sr);
          (cols, vals) = appendIfNonNil cols vals ''total_room_count'' (TotalRoomCount sr);
          (cols, vals) = appendIfNonNil cols vals ''daily_active_users'' (DailyActiveUsers sr);
          (cols, vals) = appendIfNonNil cols vals ''daily_active_rooms'' (DailyActiveRooms sr);
          (cols, vals) = appendIfNonNil cols vals ''daily_messages'' (DailyMessages sr);
          (cols, vals) = appendIfNonNil cols vals ''daily_sent_messages'' (DailySentMessages sr);
          (cols, vals) = appendIfNonEmpty cols vals ''forwarded_for'' (XForwardedFor sr);
          (cols, vals) = appendIfNonEmpty cols vals ''user_agent'' (UserAgent sr)
      in (cols, vals))"

definition Save_cols :: "StatsReport \<Rightarrow> string list" where
  "Save_cols sr = fst (Save_cols_vals sr)"

definition Save_vals :: "StatsReport \<Rightarrow> arg list" where
  "Save_vals sr = snd (Save_cols_vals sr)"

text \<open>
  Lines 101 to 108: the loop \<^verbatim>\<open>for i := range vals\<close>, with the index \<open>i\<close> and the
  slice \<^verbatim>\<open>valuePlaceholders\<close> built so far. \<open>dbDriver\<close> is the value of the flag
  \<^verbatim>\<open>*dbDriver\<close>.
\<close>

fun valuePlaceholders_loop :: "string \<Rightarrow> arg list \<Rightarrow> nat \<Rightarrow> string list \<Rightarrow> string list" where
  "valuePlaceholders_loop dbDriver [] i valuePlaceholders = valuePlaceholders"
| "valuePlaceholders_loop dbDriver (v # vals) i valuePlaceholders =
     valuePlaceholders_loop dbDriver vals (i + 1)
       (if dbDriver = ''mysql''
        then valuePlaceholders @ [''?'']
        else valuePlaceholders @ [''$'' @ Itoa (i + 1)])"

definition valuePlaceholders :: "string \<Rightarrow> arg list \<Rightarrow> string list" where
  "valuePlaceholders dbDriver vals = valuePlaceholders_loop dbDriver vals 0 []"

text \<open>
  Lines 109 to 111: the statement text. The raw string literals of the source hold a
  line feed and tabs, written here as characters.
\<close>

definition Save_query :: "string \<Rightarrow> StatsReport \<Rightarrow> string" where
  "Save_query dbDriver sr =
     ''INSERT INTO stats ('' @ [CHR 0x0A, CHR 0x09, CHR 0x09, CHR 0x09]
       @ Join (Save_cols sr) '', ''
       @ [CHR 0x0A, CHR 0x09, CHR 0x09] @ '') VALUES (''
       @ Join (valuePlaceholders dbDriver (Save_vals sr)) '', ''
       @ '')''"

definition Save :: "'db Exec \<Rightarrow> string \<Rightarrow> StatsReport \<Rightarrow> 'db Server \<Rightarrow> error option \<times> 'db Server" where
  "Save exec dbDriver sr s = DB_Exec exec (Save_query dbDriver sr) (Save_vals sr) s"

section \<open>The JSON decoder\<close>

text \<open>
  \<^verbatim>\<open>json.NewDecoder(req.Body).Decode(&sr)\<close> is the standard library's decoder applied
  to the struct \<^verbatim>\<open>StatsReport\<close>. The request body is modelled after scanning: either the
  scanner's error (\<open>EOF\<close> on an empty stream, \<open>SyntaxError\<close> on malformed text) or the
  first JSON value of the stream. A number carries the text of its literal, a string its
  unquoted bytes (UTF-8), an object its members in order, duplicates included.
\<close>

datatype json =
    JNull
  | JBool bool
  | JNumber string
  | JString string
  | JArray "json list"
  | JObject "(string \<times> json) list"

text \<open>
  \<^verbatim>\<open>strconv.ParseInt(s, 10, 64)\<close>, which the decoder applies to a number literal that
  goes to an integer field: an optional sign and decimal digits, within the range of
  \<^verbatim>\<open>int64\<close>; anything else (a fraction, an exponent, a value out of range) is an error.
\<close>

definition digit_val :: "char \<Rightarrow> nat option" where
  "digit_val c =
     map_of [(CHR ''0'', 0), (CHR ''1'', 1), (CHR ''2'', 2), (CHR ''3'', 3), (CHR ''4'', 4),
             (CHR ''5'', 5), (CHR ''6'', 6), (CHR ''7'', 7), (CHR ''8'', 8), (CHR ''9'', 9)] c"

fun parse_digits :: "string \<Rightarrow> nat \<Rightarrow> nat option" where
  "parse_digits [] acc = Some acc"
| "parse_digits (c # cs) acc =
     (case digit_val c of
        None \<Rightarrow> None
      | Some d \<Rightarrow> parse_digits cs (acc * 10 + d))"

definition ParseInt :: "string \<Rightarrow> int64 option" where
  "ParseInt s =
     (let (neg, ds) =
        (case s of
           [] \<Rightarrow> (False, [])
         | c # cs \<Rightarrow>
             if c = CHR ''-'' then (True, cs)
             else if c = CHR ''+'' then (False, cs)
             else (False, s))
      in if ds = [] then None
         else case parse_digits ds 0 of
           None \<Rightarrow> None
         | Some n \<Rightarrow>
             if neg then (if n \<le> 2 ^ 63 then Some (word_of_int (- int n)) else None)
             else (if n < 2 ^ 63 then Some (word_of_nat n) else None))"

text \<open>
  Storing a JSON value into a field of each of the three Go types of the struct. The
  result \<open>None\<close> is an \<^verbatim>\<open>UnmarshalTypeError\<close>. \<^verbatim>\<open>null\<close> leaves a \<^verbatim>\<open>string\<close> or an
  \<^verbatim>\<open>int64\<close> as it is and sets a pointer to nil.
\<close>

definition store_string :: "json \<Rightarrow> string \<Rightarrow> string option" where
  "store_string v old =
     (case v of JNull \<Rightarrow> Some old | JString x \<Rightarrow> Some x | _ \<Rightarrow> None)"

definition store_int64 :: "json \<Rightarrow> int64 \<Rightarrow> int64 option" where
  "store_int64 v old =
     (case v of JNull \<Rightarrow> Some old | JNumber lit \<Rightarrow> ParseInt lit | _ \<Rightarrow> None)"

definition store_int64_ptr :: "json \<Rightarrow> int64 option \<Rightarrow> int64 option option" where
  "store_int64_ptr v old =
     (case v of
        JNull \<Rightarrow> Some None
      | JNumber lit \<Rightarrow> (case ParseInt lit of None \<Rightarrow> None | Some n \<Rightarrow> Some (Some n))
      | _ \<Rightarrow> None)"

text \<open>
  The fields of \<^verbatim>\<open>StatsReport\<close> in the order of the declaration, each with the JSON key
  of its struct tag, or with its Go name where the field has no tag.
\<close>

datatype field =
    F_Homeserver
  | F_LocalTimestamp
  | F_RemoteTimestamp
  | F_UptimeSeconds
  | F_TotalUsers
  | F_TotalNonBridgedUsers
  | F_TotalRoomCount
  | F_DailyActiveUsers
  | F_DailyMessages
  | F_DailySentMessages
  | F_DailyActiveRooms
  | F_RemoteAddr
  | F_XForwardedFor
  | F_UserAgent

definition json_keys :: "(string \<times> field) list" where
  "json_keys =
     [(''Homeserver'', F_Homeserver),
      (''LocalTimestamp'', F_LocalTimestamp),
      (''timestamp'', F_RemoteTimestamp),
      (''uptime_seconds'', F_UptimeSeconds),
      (''total_users'', F_TotalUsers),
      (''total_nonbridged_users'', F_TotalNonBridgedUsers),
      (''total_room_count'', F_TotalRoomCount),
      (''daily_active_users'', F_DailyActiveUsers),
      (''daily_messages'', F_DailyMessages),
      (''daily_sent_messages'', F_DailySentMessages),
      (''daily_active_rooms'', F_DailyActiveRooms),
      (''RemoteAddr'', F_RemoteAddr),
      (''XForwardedFor'', F_XForwardedFor),
      (''UserAgent'', F_UserAgent)]"

text \<open>
  The decoder looks a key up by its exact name first and then under Unicode simple case
  folding. Against ASCII names only the ASCII letters fold, and the two characters
  U+212A (Kelvin sign, to \<open>k\<close>) and U+017F (long s, to \<open>s\<close>), here in UTF-8.
\<close>

definition fold_char :: "char \<Rightarrow> char" where
  "fold_char c =
     (case map_of (zip ''ABCDEFGHIJKLMNOPQRSTUVWXYZ'' ''abcdefghijklmnopqrstuvwxyz'') c of
        Some l \<Rightarrow> l
      | None \<Rightarrow> c)"

fun foldName :: "string \<Rightarrow> string" where
  "foldName (c1 # c2 # c3 # cs) =
     (if c1 = CHR 0xE2 \<and> c2 = CHR 0x84 \<and> c3 = CHR 0xAA then CHR ''k'' # foldName cs
      else if c1 = CHR 0xC5 \<and> c2 = CHR 0xBF then CHR ''s'' # foldName (c3 # cs)
      else fold_char c1 # foldName (c2 # c3 # cs))"
| "foldName [c1, c2] =
     (if c1 = CHR 0xC5 \<and> c2 = CHR 0xBF then ''s''
      else fold_char c1 # foldName [c2])"
| "foldName [c1] = [fold_char c1]"
| "foldName [] = []"

definition findField :: "string \<Rightarrow> field option" where
  "findField key =
     (case map_of json_keys key of
        Some f \<Rightarrow> Some f
      | None \<Rightarrow> map_of (map (\<lambda>(name, f). (foldName name, f)) json_keys) (foldName key))"

fun setField :: "field \<Rightarrow> json \<Rightarrow> StatsReport \<Rightarrow> StatsReport option" where
  "setField F_Homeserver v sr =
     map_option (\<lambda>x. sr\<lparr>Homeserver := x\<rparr>) (store_string v (Homeserver sr))"
| "setField F_LocalTimestamp v sr =
     map_option (\<lambda>x. sr\<lparr>LocalTimestamp := x\<rparr>) (store_int64 v (LocalTimestamp sr))"
| "setField F_RemoteTimestamp v sr =
     map_option (\<lambda>x. sr\<lparr>RemoteTimestamp := x\<rparr>) (store_int64_ptr v (RemoteTimestamp sr))"
| "setField F_UptimeSeconds v sr =
     map_option (\<lambda>x. sr\<lparr>UptimeSeconds := x\<rparr>) (store_int64_ptr v (UptimeSeconds sr))"
| "setField F_TotalUsers v sr =
     map_option (\<lambda>x. sr\<lparr>TotalUsers := x\<rparr>) (store_int64_ptr v (TotalUsers sr))"
| "setField F_TotalNonBridgedUsers v sr =
     map_option (\<lambda>x. sr\<lparr>TotalNonBridgedUsers := x\<rparr>)
       (store_int64_ptr v (TotalNonBridgedUsers sr))"
| "setField F_TotalRoomCount v sr =
     map_option (\<lambda>x. sr\<lparr>TotalRoomCount := x\<rparr>) (store_int64_ptr v (TotalRoomCount sr))"
| "setField F_DailyActiveUsers v sr =
     map_option (\<lambda>x. sr\<lparr>DailyActiveUsers := x\<rparr>) (store_int64_ptr v (DailyActiveUsers sr))"
| "setField F_DailyMessages v sr =
     map_option (\<lambda>x. sr\<lparr>DailyMessages := x\<rparr>) (store_int64_ptr v (DailyMessages sr))"
| "setField F_DailySentMessages v sr =
     map_option (\<lambda>x. sr\<lparr>DailySentMessages := x\<rparr>) (store_int64_ptr v (DailySentMessages sr))"
| "setField F_DailyActiveRooms v sr =
     map_option (\<lambda>x. sr\<lparr>DailyActiveRooms := x\<rparr>) (store_int64_ptr v (DailyActiveRooms sr))"
| "setField F_RemoteAddr v sr =
     map_option (\<lambda>x. sr\<lparr>RemoteAddr := x\<rparr>) (store_string v (RemoteAddr sr))"
| "setField F_XForwardedFor v sr =
     map_option (\<lambda>x. sr\<lparr>XForwardedFor := x\<rparr>) (store_string v (XForwardedFor sr))"
| "setField F_UserAgent v sr =
     map_option (\<lambda>x. sr\<lparr>UserAgent := x\<rparr>) (store_string v (UserAgent sr))"

text \<open>
  The members of an object, in order. A key that matches no field is skipped with its
  value. A type error is remembered (the first one) and decoding goes on with the next
  member.
\<close>

fun decode_object ::
  "(string \<times> json) list \<Rightarrow> StatsReport \<Rightarrow> error option \<Rightarrow> StatsReport \<times> error option" where
  "decode_object [] sr err = (sr, err)"
| "decode_object ((key, v) # members) sr err =
     (case findField key of
        None \<Rightarrow> decode_object members sr err
      | Some f \<Rightarrow>
          (case setField f v sr of
             Some sr' \<Rightarrow> decode_object members sr' err
           | None \<Rightarrow>
               decode_object members sr
                 (case err of None \<Rightarrow> Some (UnmarshalTypeError key) | Some e \<Rightarrow> Some e)))"

text \<open>\<^verbatim>\<open>var sr StatsReport\<close>: every field has its zero value.\<close>

definition zero_StatsReport :: StatsReport where
  "zero_StatsReport =
     \<lparr>Homeserver = [], LocalTimestamp = 0, RemoteTimestamp = None, UptimeSeconds = None,
      TotalUsers = None, TotalNonBridgedUsers = None, TotalRoomCount = None,
      DailyActiveUsers = None, DailyMessages = None, DailySentMessages = None,
      DailyActiveRooms = None, RemoteAddr = [], XForwardedFor = [], UserAgent = []\<rparr>"

text \<open>
  Decoding into the fresh struct: \<^verbatim>\<open>null\<close> has no effect, an object fills the fields,
  any other value is a type error.
\<close>

definition Decode :: "error + json \<Rightarrow> error + StatsReport" where
  "Decode body =
     (case body of
        Inl e \<Rightarrow> Inl e
      | Inr j \<Rightarrow>
          (case j of
             JNull \<Rightarrow> Inr zero_StatsReport
           | JObject members \<Rightarrow>
               (case decode_object members zero_StatsReport None of
                  (sr, None) \<Rightarrow> Inr sr
                | (sr, Some e) \<Rightarrow> Inl e)
           | _ \<Rightarrow> Inl (UnmarshalTypeError [])))"

section \<open>The HTTP handler\<close>

text \<open>
  Of a request the handler reads the body, the peer address and two headers. The
  header is the map from canonical keys to their values, as an association list;
  \<^verbatim>\<open>Header.Get\<close> gives the first value of a key, or the empty string.
\<close>

record Request =
  req_Body :: "error + json"
  req_RemoteAddr :: string
  req_Header :: "(string \<times> string list) list"

definition Header_Get :: "(string \<times> string list) list \<Rightarrow> string \<Rightarrow> string" where
  "Header_Get h key =
     (case map_of h key of
        None \<Rightarrow> []
      | Some [] \<Rightarrow> []
      | Some (v # _) \<Rightarrow> v)"

text \<open>
  The response writer: the status is fixed by the first \<^verbatim>\<open>WriteHeader\<close>; a write
  before any \<^verbatim>\<open>WriteHeader\<close> sends status 200 first.
\<close>

record ResponseWriter =
  wroteHeader :: bool
  status :: nat
  written :: string

definition newResponseWriter :: ResponseWriter where
  "newResponseWriter = \<lparr>wroteHeader = False, status = 0, written = []\<rparr>"

definition WriteHeader :: "ResponseWriter \<Rightarrow> nat \<Rightarrow> ResponseWriter" where
  "WriteHeader w code = (if wroteHeader w then w else w\<lparr>wroteHeader := True, status := code\<rparr>)"

definition WriteString :: "ResponseWriter \<Rightarrow> string \<Rightarrow> ResponseWriter" where
  "WriteString w str =
     (let w = (if wroteHeader w then w else WriteHeader w 200)
      in w\<lparr>written := written w @ str\<rparr>)"

definition logAndReplyError ::
  "ResponseWriter \<Rightarrow> error \<Rightarrow> nat \<Rightarrow> string \<Rightarrow> 'db Server \<Rightarrow> ResponseWriter \<times> 'db Server" where
  \<open>logAndReplyError w err code description s =
     (let s = s\<lparr>Log := Log s @ [(description, err)]\<rparr>;
          w = WriteHeader w code;
          w = WriteString w ''{"error_message": "unable to process request"}''
      in (w, s))\<close>

text \<open>
  \<open>now\<close> is the value of \<^verbatim>\<open>time.Now().UTC().Unix()\<close> at the request.
\<close>

definition Handle ::
  "'db Exec \<Rightarrow> string \<Rightarrow> int64 \<Rightarrow> ResponseWriter \<Rightarrow> Request \<Rightarrow> 'db Server
     \<Rightarrow> ResponseWriter \<times> 'db Server" where
  "Handle exec dbDriver now w req s =
     (case Decode (req_Body req) of
        Inl err \<Rightarrow> logAndReplyError w err 400 ''Error decoding JSON'' s
      | Inr sr \<Rightarrow>
          (let sr = sr\<lparr>LocalTimestamp := now\<rparr>;
               sr = sr\<lparr>RemoteAddr := req_RemoteAddr req\<rparr>;
               sr = sr\<lparr>XForwardedFor := Header_Get (req_Header req) ''X-Forwarded-For''\<rparr>;
               sr = sr\<lparr>UserAgent := Header_Get (req_Header req) ''User-Agent''\<rparr>
           in case Save exec dbDriver sr s of
                (Some err, s') \<Rightarrow> logAndReplyError w err 500 ''Error saving to DB'' s'
              | (None, s') \<Rightarrow> (WriteString w ''{}'', s')))"

section \<open>Schema provisioning\<close>

text \<open>
  The statement of \<^verbatim>\<open>createTable\<close>; each line of the raw string literal ends with a
  line feed and the next one starts with two tabs.
\<close>

definition createTable_query :: "string \<Rightarrow> string" where
  "createTable_query autoincrement =
     ''CREATE TABLE IF NOT EXISTS stats('' @ [CHR 0x0A, CHR 0x09, CHR 0x09]
     @ ''id INTEGER NOT NULL PRIMARY KEY '' @ autoincrement @ '' ,'' @ [CHR 0x0A, CHR 0x09, CHR 0x09]
     @ ''homeserver VARCHAR(256),'' @ [CHR 0x0A, CHR 0x09, CHR 0x09]
     @ ''local_timestamp BIGINT,'' @ [CHR 0x0A, CHR 0x09, CHR 0x09]
     @ ''remote_timestamp BIGINT,'' @ [CHR 0x0A, CHR 0x09, CHR 0x09]
     @ ''remote_addr TEXT,'' @ [CHR 0x0A, CHR 0x09, CHR 0x09]
     @ ''forwarded_for TEXT,'' @ [CHR 0x0A, CHR 0x09, CHR 0x09]
     @ ''uptime_seconds BIGINT,'' @ [CHR 0x0A, CHR 0x09, CHR 0x09]
     @ ''total_users BIGINT,'' @ [CHR 0x0A, CHR 0x09, CHR 0x09]
     @ ''total_nonbridged_users BIGINT,'' @ [CHR 0x0A, CHR 0x09, CHR 0x09]
     @ ''total_room_count BIGINT,'' @ [CHR 0x0A, CHR 0x09, CHR 0x09]
     @ ''daily_active_users BIGINT,'' @ [CHR 0x0A, CHR 0x09, CHR 0x09]
     @ ''daily_active_rooms BIGINT,'' @ [CHR 0x0A, CHR 0x09, CHR 0x09]
     @ ''daily_messages BIGINT,'' @ [CHR 0x0A, CHR 0x09, CHR 0x09]
     @ ''daily_sent_messages BIGINT,'' @ [CHR 0x0A, CHR 0x09, CHR 0x09]
     @ ''user_agent TEXT'' @ [CHR 0x0A, CHR 0x09, CHR 0x09]
     @ '')''"

definition createTable :: "'db Exec \<Rightarrow> string \<Rightarrow> 'db Server \<Rightarrow> error option \<times> 'db Server" where
  "createTable exec dbDriver s =
     (let autoincrement = (if dbDriver = ''mysql'' then ''AUTO_INCREMENT'' else ''AUTOINCREMENT'')
      in DB_Exec exec (createTable_query autoincrement) [] s)"

section \<open>Vocabulary of the properties\<close>

text \<open>
  The optional columns of an insert, in the order in which \<^verbatim>\<open>Save\<close> visits them, each
  with the field of the report it comes from: the nine optional integers, then the two
  header strings.
\<close>

definition optional_int_columns :: "(string \<times> (StatsReport \<Rightarrow> int64 option)) list" where
  "optional_int_columns =
     [(''remote_timestamp'', RemoteTimestamp),
      (''uptime_seconds'', UptimeSeconds),
      (''total_users'', TotalUsers),
      (''total_nonbridged_users'', TotalNonBridgedUsers),
      (''total_room_count'', TotalRoomCount),
      (''daily_active_users'', DailyActiveUsers),
      (''daily_active_rooms'', DailyActiveRooms),
      (''daily_messages'', DailyMessages),
      (''daily_sent_messages'', DailySentMessages)]"

definition optional_str_columns :: "(string \<times> (StatsReport \<Rightarrow> string)) list" where
  "optional_str_columns =
     [(''forwarded_for'', XForwardedFor),
      (''user_agent'', UserAgent)]"

text \<open>The field-presence pattern of a report: which optional columns it carries.\<close>

definition presence :: "StatsReport \<Rightarrow> bool list" where
  "presence sr =
     map (\<lambda>(c, sel). sel sr \<noteq> None) optional_int_columns
     @ map (\<lambda>(c, sel). sel sr \<noteq> []) optional_str_columns"

text \<open>
  The columns paired with their values: what one call of \<^verbatim>\<open>appendIfNonNil\<close> or
  \<^verbatim>\<open>appendIfNonEmpty\<close> adds, and the whole list.
\<close>

definition opt_int :: "string \<Rightarrow> int64 option \<Rightarrow> (string \<times> arg) list" where
  "opt_int name v = (case v of Some x \<Rightarrow> [(name, GoInt64Ptr x)] | None \<Rightarrow> [])"

definition opt_str :: "string \<Rightarrow> string \<Rightarrow> (string \<times> arg) list" where
  "opt_str name v = (if v \<noteq> [] then [(name, GoString v)] else [])"

definition Save_pairs :: "StatsReport \<Rightarrow> (string \<times> arg) list" where
  "Save_pairs sr =
     [(''homeserver'', GoString (Homeserver sr)),
      (''local_timestamp'', GoInt64 (LocalTimestamp sr)),
      (''remote_addr'', GoString (RemoteAddr sr))]
     @ opt_int ''remote_timestamp'' (RemoteTimestamp sr)
     @ opt_int ''uptime_seconds'' (UptimeSeconds sr)
     @ opt_int ''total_users'' (TotalUsers sr)
     @ opt_int ''total_nonbridged_users'' (TotalNonBridgedUsers sr)
     @ opt_int ''total_room_count'' (TotalRoomCount sr)
     @ opt_int ''daily_active_users'' (DailyActiveUsers sr)
     @ opt_int ''daily_active_rooms'' (DailyActiveRooms sr)
     @ opt_int ''daily_messages'' (DailyMessages sr)
     @ opt_int ''daily_sent_messages'' (DailySentMessages sr)
     @ opt_str ''forwarded_for'' (XForwardedFor sr)
     @ opt_str ''user_agent'' (UserAgent sr)"

section \<open>Two engines to run the program on\<close>

text \<open>
  An engine that accepts the two statements of the program (its state says whether
  the table exists and lists the rows inserted), and one that cannot be reached.
\<close>

record toy_db =
  has_table :: bool
  rows :: "arg list list"

definition accepting_engine :: "toy_db Exec" where
  "accepting_engine query args db =
     (if prefix ''CREATE TABLE IF NOT EXISTS stats('' query then (None, db\<lparr>has_table := True\<rparr>)
      else if prefix ''INSERT INTO stats ('' query then
        (if has_table db then (None, db\<lparr>rows := rows db @ [args]\<rparr>)
         else (Some (DriverError ''no such table: stats''), db))
      else (Some (DriverError ''syntax error''), db))"

definition unreachable_engine :: "toy_db Exec" where
  "unreachable_engine query args db = (Some (DriverError ''connection refused''), db)"

section \<open>Save: columns, values and placeholders\<close>

lemma appendIfNonNil_pairs:
  "appendIfNonNil cols vals name v =
     (cols @ map fst (opt_int name v), vals @ map snd (opt_int name v))"
  by (cases v) (simp_all add: appendIfNonNil_def opt_int_def)

lemma appendIfNonEmpty_pairs:
  "appendIfNonEmpty cols vals name v =
     (cols @ map fst (opt_str name v), vals @ map snd (opt_str name v))"
  by (simp add: appendIfNonEmpty_def opt_str_def)

lemma Save_cols_vals_pairs:
  "Save_cols_vals sr = (map fst (Save_pairs sr), map snd (Save_pairs sr))"
  by (simp add: Save_cols_vals_def Save_pairs_def appendIfNonNil_pairs appendIfNonEmpty_pairs)

lemma Save_cols_pairs: "Save_cols sr = map fst (Save_pairs sr)"
  by (simp add: Save_cols_def Save_cols_vals_pairs)

lemma Save_vals_pairs: "Save_vals sr = map snd (Save_pairs sr)"
  by (simp add: Save_vals_def Save_cols_vals_pairs)

lemma zip_Save: "zip (Save_cols sr) (Save_vals sr) = Save_pairs sr"
  by (simp add: Save_cols_pairs Save_vals_pairs zip_map_fst_snd)

lemma length_Save_vals: "length (Save_vals sr) = length (Save_cols sr)"
  by (simp add: Save_cols_pairs Save_vals_pairs)

lemma valuePlaceholders_loop_eq:
  "valuePlaceholders_loop d vals i acc =
     acc @ map (\<lambda>k. if d = ''mysql'' then ''?'' else ''$'' @ Itoa (k + 1)) [i..<i + length vals]"
proof (induction vals arbitrary: i acc)
  case Nil
  show ?case by simp
next
  case (Cons v vals)
  have "[i..<i + length (v # vals)] = i # [Suc i..<Suc i + length vals]"
    by (subst upt_rec) simp
  then show ?case
    using Cons.IH [of "Suc i"] by simp
qed

lemma valuePlaceholders_eq:
  "valuePlaceholders d vals =
     map (\<lambda>k. if d = ''mysql'' then ''?'' else ''$'' @ Itoa (k + 1)) [0..<length vals]"
  by (simp add: valuePlaceholders_def valuePlaceholders_loop_eq)

lemma length_opt_int: "length (opt_int n v) \<le> 1"
  by (simp add: opt_int_def split: option.split)

lemma length_opt_str: "length (opt_str n v) \<le> 1"
  by (simp add: opt_str_def)

lemma length_Save_pairs: "length (Save_pairs sr) \<le> 14"
  using length_opt_int [of "''remote_timestamp''" "RemoteTimestamp sr"]
    length_opt_int [of "''uptime_seconds''" "UptimeSeconds sr"]
    length_opt_int [of "''total_users''" "TotalUsers sr"]
    length_opt_int [of "''total_nonbridged_users''" "TotalNonBridgedUsers sr"]
    length_opt_int [of "''total_room_count''" "TotalRoomCount sr"]
    length_opt_int [of "''daily_active_users''" "DailyActiveUsers sr"]
    length_opt_int [of "''daily_active_rooms''" "DailyActiveRooms sr"]
    length_opt_int [of "''daily_messages''" "DailyMessages sr"]
    length_opt_int [of "''daily_sent_messages''" "DailySentMessages sr"]
    length_opt_str [of "''forwarded_for''" "XForwardedFor sr"]
    length_opt_str [of "''user_agent''" "UserAgent sr"]
  by (simp add: Save_pairs_def)

lemma Itoa_upto_14:
  "map (\<lambda>k. ''$'' @ Itoa (k + 1)) [0..<14] =
     [''$1'', ''$2'', ''$3'', ''$4'', ''$5'', ''$6'', ''$7'', ''$8'', ''$9'', ''$10'',
      ''$11'', ''$12'', ''$13'', ''$14'']"
  by (simp add: upt_rec Itoa.simps digit_def)

lemma dollar_take:
  assumes "n \<le> 14"
  shows "map (\<lambda>k. ''$'' @ Itoa (k + 1)) [0..<n] =
     take n [''$1'', ''$2'', ''$3'', ''$4'', ''$5'', ''$6'', ''$7'', ''$8'', ''$9'', ''$10'',
      ''$11'', ''$12'', ''$13'', ''$14'']"
proof -
  have "map (\<lambda>k. ''$'' @ Itoa (k + 1)) [0..<n] = take n (map (\<lambda>k. ''$'' @ Itoa (k + 1)) [0..<14])"
    using assms by (simp add: take_map min_def)
  then show ?thesis by (simp only: Itoa_upto_14)
qed

lemma fst_opt_int: "map fst (opt_int n v) = (if v \<noteq> None then [n] else [])"
  by (cases v) (simp_all add: opt_int_def)

lemma fst_opt_str: "map fst (opt_str n v) = (if v \<noteq> [] then [n] else [])"
  by (simp add: opt_str_def)

lemma filter_int_Cons:
  "map fst (filter (\<lambda>(c, sel). sel sr \<noteq> None) ((n, f) # xs)) =
     map fst (opt_int n (f sr)) @ map fst (filter (\<lambda>(c, sel). sel sr \<noteq> None) xs)"
  by (cases "f sr") (simp_all add: opt_int_def)

lemma filter_str_Cons:
  "map fst (filter (\<lambda>(c, sel). sel sr \<noteq> []) ((n, f) # xs)) =
     map fst (opt_str n (f sr)) @ map fst (filter (\<lambda>(c, sel). sel sr \<noteq> []) xs)"
  by (simp add: opt_str_def)

lemma Save_cols_filter:
  "Save_cols sr = [''homeserver'', ''local_timestamp'', ''remote_addr'']
      @ map fst (filter (\<lambda>(c, sel). sel sr \<noteq> None) optional_int_columns)
      @ map fst (filter (\<lambda>(c, sel). sel sr \<noteq> []) optional_str_columns)"
  unfolding optional_int_columns_def optional_str_columns_def filter_int_Cons filter_str_Cons
  by (simp add: Save_cols_pairs Save_pairs_def del: filter.simps)

lemma Save_cols_subseq:
  "subseq (Save_cols sr)
     ([''homeserver'', ''local_timestamp'', ''remote_addr'']
      @ map fst optional_int_columns @ map fst optional_str_columns)"
  unfolding Save_cols_filter
  by (intro list_emb_append_mono subseq_map subseq_filter_left subseq_order.order_refl)

lemma subseq_keeps_distinct: "subseq xs ys \<Longrightarrow> distinct ys \<Longrightarrow> distinct xs"
  by (induction rule: list_emb.induct) (auto dest: list_emb_set)

lemma Save_query_cols:
  "Save_query d sr =
     ''INSERT INTO stats ('' @ [CHR 0x0A, CHR 0x09, CHR 0x09, CHR 0x09]
       @ Join (Save_cols sr) '', ''
       @ [CHR 0x0A, CHR 0x09, CHR 0x09] @ '') VALUES (''
       @ Join (map (\<lambda>k. if d = ''mysql'' then ''?'' else ''$'' @ Itoa (k + 1))
            [0..<length (Save_cols sr)]) '', ''
       @ '')''"
  by (simp only: Save_query_def valuePlaceholders_eq length_Save_vals)

lemma presence_cols:
  assumes "presence a = presence b"
  shows "Save_cols a = Save_cols b"
proof -
  have "map fst (opt_int n (f a)) = map fst (opt_int n (f b))"
    if "(f a \<noteq> None) = (f b \<noteq> None)" for n and f :: "StatsReport \<Rightarrow> int64 option"
    using that by (simp add: fst_opt_int)
  moreover have "map fst (opt_str n (f a)) = map fst (opt_str n (f b))"
    if "(f a \<noteq> []) = (f b \<noteq> [])" for n and f :: "StatsReport \<Rightarrow> string"
    using that by (simp add: fst_opt_str)
  ultimately show ?thesis
    using assms
    by (simp add: presence_def optional_int_columns_def optional_str_columns_def
        Save_cols_pairs Save_pairs_def)
qed

lemma map_of_opt_int:
  "map_of (opt_int n v @ ps) c =
     (if c = n then (case v of Some x \<Rightarrow> Some (GoInt64Ptr x) | None \<Rightarrow> map_of ps c)
      else map_of ps c)"
  by (cases v) (simp_all add: opt_int_def)

lemma map_of_opt_str:
  "map_of (opt_str n v @ ps) c =
     (if c = n \<and> v \<noteq> [] then Some (GoString v) else map_of ps c)"
  by (simp add: opt_str_def)

lemma map_of_opt_str_last:
  "map_of (opt_str n v) c = (if c = n \<and> v \<noteq> [] then Some (GoString v) else None)"
  by (simp add: opt_str_def)


lemma map_of_Save_pairs_int:
  shows "map_of (Save_pairs sr) ''remote_timestamp'' = map_option GoInt64Ptr (RemoteTimestamp sr)"
    and "map_of (Save_pairs sr) ''uptime_seconds'' = map_option GoInt64Ptr (UptimeSeconds sr)"
    and "map_of (Save_pairs sr) ''total_users'' = map_option GoInt64Ptr (TotalUsers sr)"
    and "map_of (Save_pairs sr) ''total_nonbridged_users'' = map_option GoInt64Ptr (TotalNonBridgedUsers sr)"
    and "map_of (Save_pairs sr) ''total_room_count'' = map_option GoInt64Ptr (TotalRoomCount sr)"
    and "map_of (Save_pairs sr) ''daily_active_users'' = map_option GoInt64Ptr (DailyActiveUsers sr)"
    and "map_of (Save_pairs sr) ''daily_active_rooms'' = map_option GoInt64Ptr (DailyActiveRooms sr)"
    and "map_of (Save_pairs sr) ''daily_messages'' = map_option GoInt64Ptr (DailyMessages sr)"
    and "map_of (Save_pairs sr) ''daily_sent_messages'' = map_option GoInt64Ptr (DailySentMessages sr)"
  unfolding Save_pairs_def
  by (simp_all add: map_of_opt_int map_of_opt_str map_of_opt_str_last del: map_of_append split: option.split)

lemma map_of_Save_int:
  assumes "(c, sel) \<in> set optional_int_columns"
  shows "map_of (zip (Save_cols sr) (Save_vals sr)) c = map_option GoInt64Ptr (sel sr)"
proof -
  from assms have "map_of (Save_pairs sr) c = map_option GoInt64Ptr (sel sr)"
    unfolding optional_int_columns_def
    by (auto simp only: set_simps insert_iff empty_iff prod.inject map_of_Save_pairs_int)
  then show ?thesis by (simp only: zip_Save)
qed


lemma Save_cols_int:
  assumes "(c, sel) \<in> set optional_int_columns"
  shows "c \<in> set (Save_cols sr) \<longleftrightarrow> sel sr \<noteq> None"
proof -
  have "c \<in> set (Save_cols sr) \<longleftrightarrow> map_of (zip (Save_cols sr) (Save_vals sr)) c \<noteq> None"
    unfolding zip_Save by (simp add: Save_cols_pairs map_of_eq_None_iff)
  then show ?thesis
    by (simp add: map_of_Save_int [OF assms])
qed

text \<open>
  C5. The column list of \<^verbatim>\<open>Save\<close> starts with \<open>homeserver\<close>, \<open>local_timestamp\<close>,
  \<open>remote_addr\<close> and goes on with exactly the optional columns that are present, in the
  one fixed order of the table; so it is a subsequence of one fixed list of distinct names,
  and any two columns come in the same relative order in every report.
\<close>

theorem Save_cols_canonical:
  "Save_cols sr = [''homeserver'', ''local_timestamp'', ''remote_addr'']
      @ map fst (filter (\<lambda>(c, sel). sel sr \<noteq> None) optional_int_columns)
      @ map fst (filter (\<lambda>(c, sel). sel sr \<noteq> []) optional_str_columns)
   \<and> map fst optional_int_columns @ map fst optional_str_columns =
       [''remote_timestamp'', ''uptime_seconds'', ''total_users'', ''total_nonbridged_users'',
        ''total_room_count'', ''daily_active_users'', ''daily_active_rooms'', ''daily_messages'',
        ''daily_sent_messages'', ''forwarded_for'', ''user_agent'']
   \<and> subseq (Save_cols sr)
       [''homeserver'', ''local_timestamp'', ''remote_addr'',
        ''remote_timestamp'', ''uptime_seconds'', ''total_users'', ''total_nonbridged_users'',
        ''total_room_count'', ''daily_active_users'', ''daily_active_rooms'', ''daily_messages'',
        ''daily_sent_messages'', ''forwarded_for'', ''user_agent'']
   \<and> distinct (Save_cols sr)"
proof (intro conjI)
  show "Save_cols sr = [''homeserver'', ''local_timestamp'', ''remote_addr'']
      @ map fst (filter (\<lambda>(c, sel). sel sr \<noteq> None) optional_int_columns)
      @ map fst (filter (\<lambda>(c, sel). sel sr \<noteq> []) optional_str_columns)"
    by (rule Save_cols_filter)
  show "map fst optional_int_columns @ map fst optional_str_columns =
       [''remote_timestamp'', ''uptime_seconds'', ''total_users'', ''total_nonbridged_users'',
        ''total_room_count'', ''daily_active_users'', ''daily_active_rooms'', ''daily_messages'',
        ''daily_sent_messages'', ''forwarded_for'', ''user_agent'']"
    by (simp add: optional_int_columns_def optional_str_columns_def)
  show sub: "subseq (Save_cols sr)
       [''homeserver'', ''local_timestamp'', ''remote_addr'',
        ''remote_timestamp'', ''uptime_seconds'', ''total_users'', ''total_nonbridged_users'',
        ''total_room_count'', ''daily_active_users'', ''daily_active_rooms'', ''daily_messages'',
        ''daily_sent_messages'', ''forwarded_for'', ''user_agent'']"
    using Save_cols_subseq [of sr] by (simp add: optional_int_columns_def optional_str_columns_def)
  have "distinct [''homeserver'', ''local_timestamp'', ''remote_addr'',
        ''remote_timestamp'', ''uptime_seconds'', ''total_users'', ''total_nonbridged_users'',
        ''total_room_count'', ''daily_active_users'', ''daily_active_rooms'', ''daily_messages'',
        ''daily_sent_messages'', ''forwarded_for'', ''user_agent'']"
    by simp
  with sub show "distinct (Save_cols sr)"
    by (rule subseq_keeps_distinct)
qed

text \<open>
  C1. Two reports with the same field-presence pattern, under the same driver, give the
  same statement text, character for character: the text does not depend on the values
  the reports carry. The values go to \<^verbatim>\<open>Exec\<close> as the argument list only.
\<close>

theorem Save_query_independent_of_values:
  assumes "presence a = presence b"
  shows "Save_query d a = Save_query d b \<and> Save_cols a = Save_cols b
    \<and> Execs (snd (Save exec d a s)) = Execs s @ [(Save_query d a, Save_vals a)]"
  using presence_cols [OF assms]
  by (simp add: Save_query_cols Save_def DB_Exec_def split: prod.split)

theorem Save_query_independent_of_values_witness:
  "presence (zero_StatsReport\<lparr>Homeserver := ''a.example'', TotalUsers := Some 7\<rparr>)
     = presence (zero_StatsReport\<lparr>Homeserver := ''b.example'', LocalTimestamp := 99,
         TotalUsers := Some 0, RemoteAddr := ''10.0.0.1:4000''\<rparr>)
   \<and> Save_query ''sqlite3'' (zero_StatsReport\<lparr>Homeserver := ''a.example'', TotalUsers := Some 7\<rparr>)
     = Save_query ''sqlite3'' (zero_StatsReport\<lparr>Homeserver := ''b.example'', LocalTimestamp := 99,
         TotalUsers := Some 0, RemoteAddr := ''10.0.0.1:4000''\<rparr>)"
proof -
  have h: "presence (zero_StatsReport\<lparr>Homeserver := ''a.example'', TotalUsers := Some 7\<rparr>)
     = presence (zero_StatsReport\<lparr>Homeserver := ''b.example'', LocalTimestamp := 99,
         TotalUsers := Some 0, RemoteAddr := ''10.0.0.1:4000''\<rparr>)"
    by (simp add: presence_def optional_int_columns_def optional_str_columns_def
        zero_StatsReport_def)
  have q: "Save_query ''sqlite3'' (zero_StatsReport\<lparr>Homeserver := ''a.example'', TotalUsers := Some 7\<rparr>)
     = Save_query ''sqlite3'' (zero_StatsReport\<lparr>Homeserver := ''b.example'', LocalTimestamp := 99,
         TotalUsers := Some 0, RemoteAddr := ''10.0.0.1:4000''\<rparr>)"
    by (rule Save_query_independent_of_values [OF h, THEN conjunct1])
  from h q show ?thesis by (rule conjI)
qed

text \<open>
  C4. The placeholder list has one token for each bound value, and there are as many
  values as columns. The token at index \<open>i\<close> (counted from 0) is \<open>?\<close> when the driver is
  \<open>mysql\<close>, and \<open>$\<close> followed by the decimal digits of \<open>i + 1\<close> for every other driver; as
  a report binds at most 14 values, the list is a prefix of \<open>$1\<close>, ..., \<open>$14\<close>.
\<close>

theorem placeholders_match_values:
  "length (valuePlaceholders d (Save_vals sr)) = length (Save_vals sr)
   \<and> length (Save_vals sr) = length (Save_cols sr)
   \<and> (\<forall>i < length (Save_vals sr).
        valuePlaceholders d (Save_vals sr) ! i =
          (if d = ''mysql'' then ''?'' else ''$'' @ Itoa (i + 1)))
   \<and> valuePlaceholders d (Save_vals sr) =
       (if d = ''mysql'' then replicate (length (Save_vals sr)) ''?''
        else take (length (Save_vals sr))
          [''$1'', ''$2'', ''$3'', ''$4'', ''$5'', ''$6'', ''$7'', ''$8'', ''$9'', ''$10'',
           ''$11'', ''$12'', ''$13'', ''$14''])"
proof (intro conjI)
  show "length (valuePlaceholders d (Save_vals sr)) = length (Save_vals sr)"
    by (simp add: valuePlaceholders_eq)
  show "length (Save_vals sr) = length (Save_cols sr)"
    by (rule length_Save_vals)
  show "\<forall>i < length (Save_vals sr).
        valuePlaceholders d (Save_vals sr) ! i =
          (if d = ''mysql'' then ''?'' else ''$'' @ Itoa (i + 1))"
    by (simp add: valuePlaceholders_eq)
  have le: "length (Save_vals sr) \<le> 14"
    using length_Save_pairs [of sr] by (simp add: Save_vals_pairs)
  show "valuePlaceholders d (Save_vals sr) =
       (if d = ''mysql'' then replicate (length (Save_vals sr)) ''?''
        else take (length (Save_vals sr))
          [''$1'', ''$2'', ''$3'', ''$4'', ''$5'', ''$6'', ''$7'', ''$8'', ''$9'', ''$10'',
           ''$11'', ''$12'', ''$13'', ''$14''])"
  proof (cases "d = ''mysql''")
    case True
    then show ?thesis
      by (simp add: valuePlaceholders_eq map_replicate_const)
  next
    case False
    then show ?thesis
      using dollar_take [OF le] by (simp add: valuePlaceholders_eq)
  qed
qed

theorem placeholders_match_values_witness:
  "(2::nat) < length (Save_vals (zero_StatsReport\<lparr>Homeserver := ''a.example''\<rparr>))
   \<and> valuePlaceholders ''postgres'' (Save_vals (zero_StatsReport\<lparr>Homeserver := ''a.example''\<rparr>)) ! 2
       = ''$3''
   \<and> valuePlaceholders ''mysql'' (Save_vals (zero_StatsReport\<lparr>Homeserver := ''a.example''\<rparr>)) ! 2
       = ''?''"
proof -
  have h: "(2::nat) < length (Save_vals (zero_StatsReport\<lparr>Homeserver := ''a.example''\<rparr>))"
    by (simp add: Save_vals_def Save_cols_vals_def appendIfNonNil_def appendIfNonEmpty_def
        zero_StatsReport_def)
  have i3: "Itoa (2 + 1) = ''3''"
    by (simp add: Itoa.simps digit_def)
  from placeholders_match_values [of "''postgres''" "zero_StatsReport\<lparr>Homeserver := ''a.example''\<rparr>"]
    placeholders_match_values [of "''mysql''" "zero_StatsReport\<lparr>Homeserver := ''a.example''\<rparr>"]
    h i3
  show ?thesis by simp
qed

text \<open>
  C3. For a report with no optional integer and empty \<^verbatim>\<open>XForwardedFor\<close> and
  \<^verbatim>\<open>UserAgent\<close>, \<^verbatim>\<open>Save\<close> makes one call of \<^verbatim>\<open>Exec\<close>; its statement names the three
  columns \<open>homeserver\<close>, \<open>local_timestamp\<close>, \<open>remote_addr\<close> and no other, and it binds
  exactly the three values of these fields.
\<close>

theorem Save_only_homeserver:
  assumes "RemoteTimestamp sr = None" and "UptimeSeconds sr = None" and "TotalUsers sr = None"
    and "TotalNonBridgedUsers sr = None" and "TotalRoomCount sr = None"
    and "DailyActiveUsers sr = None" and "DailyActiveRooms sr = None"
    and "DailyMessages sr = None" and "DailySentMessages sr = None"
    and "XForwardedFor sr = []" and "UserAgent sr = []"
  shows "Save_cols sr = [''homeserver'', ''local_timestamp'', ''remote_addr'']
    \<and> Save_vals sr = [GoString (Homeserver sr), GoInt64 (LocalTimestamp sr), GoString (RemoteAddr sr)]
    \<and> Save_query d sr =
        ''INSERT INTO stats ('' @ [CHR 0x0A, CHR 0x09, CHR 0x09, CHR 0x09]
        @ ''homeserver, local_timestamp, remote_addr''
        @ [CHR 0x0A, CHR 0x09, CHR 0x09]
        @ (if d = ''mysql'' then '') VALUES (?, ?, ?)'' else '') VALUES ($1, $2, $3)'')
    \<and> Execs (snd (Save exec d sr s)) = Execs s @ [(Save_query d sr, Save_vals sr)]"
proof -
  have cv: "Save_cols_vals sr =
      ([''homeserver'', ''local_timestamp'', ''remote_addr''],
       [GoString (Homeserver sr), GoInt64 (LocalTimestamp sr), GoString (RemoteAddr sr)])"
    using assms by (simp add: Save_cols_vals_def appendIfNonNil_def appendIfNonEmpty_def)
  have cols: "Save_cols sr = [''homeserver'', ''local_timestamp'', ''remote_addr'']"
    by (simp add: Save_cols_def cv)
  have vals: "Save_vals sr =
      [GoString (Homeserver sr), GoInt64 (LocalTimestamp sr), GoString (RemoteAddr sr)]"
    by (simp add: Save_vals_def cv)
  have q: "Save_query d sr =
        ''INSERT INTO stats ('' @ [CHR 0x0A, CHR 0x09, CHR 0x09, CHR 0x09]
        @ ''homeserver, local_timestamp, remote_addr''
        @ [CHR 0x0A, CHR 0x09, CHR 0x09]
        @ (if d = ''mysql'' then '') VALUES (?, ?, ?)'' else '') VALUES ($1, $2, $3)'')"
    by (simp add: Save_query_def cols vals valuePlaceholders_def Itoa.simps digit_def)
  have e: "Execs (snd (Save exec d sr s)) = Execs s @ [(Save_query d sr, Save_vals sr)]"
    by (simp add: Save_def DB_Exec_def split: prod.split)
  from cols vals q e show ?thesis by (intro conjI)
qed

theorem Save_only_homeserver_witness:
  "(RemoteTimestamp (zero_StatsReport\<lparr>Homeserver := ''a.example''\<rparr>) = None
    \<and> UptimeSeconds (zero_StatsReport\<lparr>Homeserver := ''a.example''\<rparr>) = None
    \<and> TotalUsers (zero_StatsReport\<lparr>Homeserver := ''a.example''\<rparr>) = None
    \<and> TotalNonBridgedUsers (zero_StatsReport\<lparr>Homeserver := ''a.example''\<rparr>) = None
    \<and> TotalRoomCount (zero_StatsReport\<lparr>Homeserver := ''a.example''\<rparr>) = None
    \<and> DailyActiveUsers (zero_StatsReport\<lparr>Homeserver := ''a.example''\<rparr>) = None
    \<and> DailyActiveRooms (zero_StatsReport\<lparr>Homeserver := ''a.example''\<rparr>) = None
    \<and> DailyMessages (zero_StatsReport\<lparr>Homeserver := ''a.example''\<rparr>) = None
    \<and> DailySentMessages (zero_StatsReport\<lparr>Homeserver := ''a.example''\<rparr>) = None
    \<and> XForwardedFor (zero_StatsReport\<lparr>Homeserver := ''a.example''\<rparr>) = []
    \<and> UserAgent (zero_StatsReport\<lparr>Homeserver := ''a.example''\<rparr>) = [])
   \<and> Save_cols (zero_StatsReport\<lparr>Homeserver := ''a.example''\<rparr>)
       = [''homeserver'', ''local_timestamp'', ''remote_addr'']
   \<and> Save_vals (zero_StatsReport\<lparr>Homeserver := ''a.example''\<rparr>)
       = [GoString ''a.example'', GoInt64 0, GoString []]"
proof -
  have h: "RemoteTimestamp (zero_StatsReport\<lparr>Homeserver := ''a.example''\<rparr>) = None
    \<and> UptimeSeconds (zero_StatsReport\<lparr>Homeserver := ''a.example''\<rparr>) = None
    \<and> TotalUsers (zero_StatsReport\<lparr>Homeserver := ''a.example''\<rparr>) = None
    \<and> TotalNonBridgedUsers (zero_StatsReport\<lparr>Homeserver := ''a.example''\<rparr>) = None
    \<and> TotalRoomCount (zero_StatsReport\<lparr>Homeserver := ''a.example''\<rparr>) = None
    \<and> DailyActiveUsers (zero_StatsReport\<lparr>Homeserver := ''a.example''\<rparr>) = None
    \<and> DailyActiveRooms (zero_StatsReport\<lparr>Homeserver := ''a.example''\<rparr>) = None
    \<and> DailyMessages (zero_StatsReport\<lparr>Homeserver := ''a.example''\<rparr>) = None
    \<and> DailySentMessages (zero_StatsReport\<lparr>Homeserver := ''a.example''\<rparr>) = None
    \<and> XForwardedFor (zero_StatsReport\<lparr>Homeserver := ''a.example''\<rparr>) = []
    \<and> UserAgent (zero_StatsReport\<lparr>Homeserver := ''a.example''\<rparr>) = []"
    by (simp add: zero_StatsReport_def)
  have c: "Save_cols (zero_StatsReport\<lparr>Homeserver := ''a.example''\<rparr>)
       = [''homeserver'', ''local_timestamp'', ''remote_addr'']"
    by (rule Save_only_homeserver [THEN conjunct1]) (simp_all add: h)
  have "Save_vals (zero_StatsReport\<lparr>Homeserver := ''a.example''\<rparr>)
       = [GoString (Homeserver (zero_StatsReport\<lparr>Homeserver := ''a.example''\<rparr>)),
          GoInt64 (LocalTimestamp (zero_StatsReport\<lparr>Homeserver := ''a.example''\<rparr>)),
          GoString (RemoteAddr (zero_StatsReport\<lparr>Homeserver := ''a.example''\<rparr>))]"
    by (rule Save_only_homeserver [THEN conjunct2, THEN conjunct1]) (simp_all add: h)
  then have v: "Save_vals (zero_StatsReport\<lparr>Homeserver := ''a.example''\<rparr>)
       = [GoString ''a.example'', GoInt64 0, GoString []]"
    by (simp add: zero_StatsReport_def)
  from h c v show ?thesis by blast
qed

lemma Save_Execs: "Execs (snd (Save exec d sr s)) = Execs s @ [(Save_query d sr, Save_vals sr)]"
  by (simp add: Save_def DB_Exec_def split: prod.split)

lemma Save_Log: "Log (snd (Save exec d sr s)) = Log s"
  by (simp add: Save_def DB_Exec_def split: prod.split)

lemma Save_result:
  "fst (Save exec d sr s) = fst (exec (Save_query d sr) (Save_vals sr) (DB s))
   \<and> DB (snd (Save exec d sr s)) = snd (exec (Save_query d sr) (Save_vals sr) (DB s))"
  by (simp add: Save_def DB_Exec_def split: prod.split)

lemma Save_query_text:
  "Save_query d sr =
     ''INSERT INTO stats ('' @ [CHR 0x0A, CHR 0x09, CHR 0x09, CHR 0x09]
       @ Join (Save_cols sr) '', ''
       @ [CHR 0x0A, CHR 0x09, CHR 0x09] @ '') VALUES (''
       @ Join (valuePlaceholders d (Save_vals sr)) '', ''
       @ '')''"
  by (simp only: Save_query_def)

text \<open>
  C2. \<^verbatim>\<open>Save\<close> makes one call of \<^verbatim>\<open>Exec\<close>, with the statement whose column list is
  the joined \<open>Save_cols\<close> and with \<open>Save_vals\<close> as the bound values. For each of the nine
  optional integer fields: a report that carries the field with value 0 has the field's
  column in this list, bound to (a pointer to) 0; a report without the field has no such
  column in its statement and no value for it; so the two reports have different column
  sets.
\<close>

theorem zero_distinct_from_absent:
  "Execs (snd (Save exec d a s)) = Execs s @ [(Save_query d a, Save_vals a)]
   \<and> Execs (snd (Save exec d b s)) = Execs s @ [(Save_query d b, Save_vals b)]
   \<and> Save_query d a =
       ''INSERT INTO stats ('' @ [CHR 0x0A, CHR 0x09, CHR 0x09, CHR 0x09]
       @ Join (Save_cols a) '', ''
       @ [CHR 0x0A, CHR 0x09, CHR 0x09] @ '') VALUES (''
       @ Join (valuePlaceholders d (Save_vals a)) '', '' @ '')''
   \<and> Save_query d b =
       ''INSERT INTO stats ('' @ [CHR 0x0A, CHR 0x09, CHR 0x09, CHR 0x09]
       @ Join (Save_cols b) '', ''
       @ [CHR 0x0A, CHR 0x09, CHR 0x09] @ '') VALUES (''
       @ Join (valuePlaceholders d (Save_vals b)) '', '' @ '')''
   \<and> (\<forall>(c, sel) \<in> set optional_int_columns.
     (sel a = Some 0 \<longrightarrow>
        c \<in> set (Save_cols a) \<and> map_of (zip (Save_cols a) (Save_vals a)) c = Some (GoInt64Ptr 0))
     \<and> (sel b = None \<longrightarrow> c \<notin> set (Save_cols b) \<and> map_of (zip (Save_cols b) (Save_vals b)) c = None)
     \<and> (sel a = Some 0 \<longrightarrow> sel b = None \<longrightarrow> set (Save_cols a) \<noteq> set (Save_cols b)))"
proof (intro conjI)
  show "Execs (snd (Save exec d a s)) = Execs s @ [(Save_query d a, Save_vals a)]"
    by (rule Save_Execs)
  show "Execs (snd (Save exec d b s)) = Execs s @ [(Save_query d b, Save_vals b)]"
    by (rule Save_Execs)
  show "Save_query d a =
       ''INSERT INTO stats ('' @ [CHR 0x0A, CHR 0x09, CHR 0x09, CHR 0x09]
       @ Join (Save_cols a) '', ''
       @ [CHR 0x0A, CHR 0x09, CHR 0x09] @ '') VALUES (''
       @ Join (valuePlaceholders d (Save_vals a)) '', '' @ '')''"
    by (rule Save_query_text)
  show "Save_query d b =
       ''INSERT INTO stats ('' @ [CHR 0x0A, CHR 0x09, CHR 0x09, CHR 0x09]
       @ Join (Save_cols b) '', ''
       @ [CHR 0x0A, CHR 0x09, CHR 0x09] @ '') VALUES (''
       @ Join (valuePlaceholders d (Save_vals b)) '', '' @ '')''"
    by (rule Save_query_text)
  show "\<forall>(c, sel) \<in> set optional_int_columns.
     (sel a = Some 0 \<longrightarrow>
        c \<in> set (Save_cols a) \<and> map_of (zip (Save_cols a) (Save_vals a)) c = Some (GoInt64Ptr 0))
     \<and> (sel b = None \<longrightarrow> c \<notin> set (Save_cols b) \<and> map_of (zip (Save_cols b) (Save_vals b)) c = None)
     \<and> (sel a = Some 0 \<longrightarrow> sel b = None \<longrightarrow> set (Save_cols a) \<noteq> set (Save_cols b))"
  proof (rule ballI)
    fix p :: "string \<times> (StatsReport \<Rightarrow> int64 option)"
    assume p: "p \<in> set optional_int_columns"
    obtain c sel where eq: "p = (c, sel)" by (cases p)
    from p eq have m: "(c, sel) \<in> set optional_int_columns" by simp
    have ca: "c \<in> set (Save_cols a) \<longleftrightarrow> sel a \<noteq> None"
      by (rule Save_cols_int [OF m])
    have cb: "c \<in> set (Save_cols b) \<longleftrightarrow> sel b \<noteq> None"
      by (rule Save_cols_int [OF m])
    have ma: "map_of (zip (Save_cols a) (Save_vals a)) c = map_option GoInt64Ptr (sel a)"
      by (rule map_of_Save_int [OF m])
    have mb: "map_of (zip (Save_cols b) (Save_vals b)) c = map_option GoInt64Ptr (sel b)"
      by (rule map_of_Save_int [OF m])
    have 1: "sel a = Some 0 \<longrightarrow>
          c \<in> set (Save_cols a) \<and> map_of (zip (Save_cols a) (Save_vals a)) c = Some (GoInt64Ptr 0)"
      by (simp add: ca ma)
    have 2: "sel b = None \<longrightarrow>
          c \<notin> set (Save_cols b) \<and> map_of (zip (Save_cols b) (Save_vals b)) c = None"
      by (simp add: cb mb)
    have 3: "sel a = Some 0 \<longrightarrow> sel b = None \<longrightarrow> set (Save_cols a) \<noteq> set (Save_cols b)"
    proof (intro impI)
      assume "sel a = Some 0" and "sel b = None"
      then have "c \<in> set (Save_cols a)" and "c \<notin> set (Save_cols b)"
        by (simp_all add: ca cb)
      then show "set (Save_cols a) \<noteq> set (Save_cols b)" by blast
    qed
    from 1 2 3 show "case p of (c, sel) \<Rightarrow>
       (sel a = Some 0 \<longrightarrow>
          c \<in> set (Save_cols a) \<and> map_of (zip (Save_cols a) (Save_vals a)) c = Some (GoInt64Ptr 0))
       \<and> (sel b = None \<longrightarrow> c \<notin> set (Save_cols b) \<and> map_of (zip (Save_cols b) (Save_vals b)) c = None)
       \<and> (sel a = Some 0 \<longrightarrow> sel b = None \<longrightarrow> set (Save_cols a) \<noteq> set (Save_cols b))"
      unfolding eq prod.case by (intro conjI)
  qed
qed

theorem zero_distinct_from_absent_witness:
  "(''total_users'', TotalUsers) \<in> set optional_int_columns
   \<and> TotalUsers (zero_StatsReport\<lparr>TotalUsers := Some 0\<rparr>) = Some 0
   \<and> TotalUsers zero_StatsReport = None
   \<and> ''total_users'' \<in> set (Save_cols (zero_StatsReport\<lparr>TotalUsers := Some 0\<rparr>))
   \<and> map_of (zip (Save_cols (zero_StatsReport\<lparr>TotalUsers := Some 0\<rparr>))
         (Save_vals (zero_StatsReport\<lparr>TotalUsers := Some 0\<rparr>))) ''total_users''
       = Some (GoInt64Ptr 0)
   \<and> ''total_users'' \<notin> set (Save_cols zero_StatsReport)
   \<and> set (Save_cols (zero_StatsReport\<lparr>TotalUsers := Some 0\<rparr>)) \<noteq> set (Save_cols zero_StatsReport)
   \<and> Execs (snd (Save accepting_engine ''sqlite3'' (zero_StatsReport\<lparr>TotalUsers := Some 0\<rparr>)
        \<lparr>DB = \<lparr>has_table = True, rows = []\<rparr>, Execs = [], Log = []\<rparr>))
      = [(''INSERT INTO stats ('' @ [CHR 0x0A, CHR 0x09, CHR 0x09, CHR 0x09]
          @ ''homeserver, local_timestamp, remote_addr, total_users''
          @ [CHR 0x0A, CHR 0x09, CHR 0x09] @ '') VALUES ($1, $2, $3, $4)'',
          [GoString [], GoInt64 0, GoString [], GoInt64Ptr 0])]
   \<and> Execs (snd (Save accepting_engine ''sqlite3'' zero_StatsReport
        \<lparr>DB = \<lparr>has_table = True, rows = []\<rparr>, Execs = [], Log = []\<rparr>))
      = [(''INSERT INTO stats ('' @ [CHR 0x0A, CHR 0x09, CHR 0x09, CHR 0x09]
          @ ''homeserver, local_timestamp, remote_addr''
          @ [CHR 0x0A, CHR 0x09, CHR 0x09] @ '') VALUES ($1, $2, $3)'',
          [GoString [], GoInt64 0, GoString []])]"
proof -
  have m: "(''total_users'', TotalUsers) \<in> set optional_int_columns"
    by (simp add: optional_int_columns_def)
  have a: "TotalUsers (zero_StatsReport\<lparr>TotalUsers := Some 0\<rparr>) = Some 0"
    by simp
  have b: "TotalUsers zero_StatsReport = None"
    by (simp add: zero_StatsReport_def)
  note t = zero_distinct_from_absent
      [of accepting_engine "''sqlite3''" "zero_StatsReport\<lparr>TotalUsers := Some 0\<rparr>"
        "\<lparr>DB = \<lparr>has_table = True, rows = []\<rparr>, Execs = [], Log = []\<rparr>" zero_StatsReport]
  have cva: "Save_cols_vals (zero_StatsReport\<lparr>TotalUsers := Some 0\<rparr>)
     = ([''homeserver'', ''local_timestamp'', ''remote_addr'', ''total_users''],
        [GoString [], GoInt64 0, GoString [], GoInt64Ptr 0])"
    by (simp add: Save_cols_vals_def appendIfNonNil_def appendIfNonEmpty_def zero_StatsReport_def)
  have cvb: "Save_cols_vals zero_StatsReport
     = ([''homeserver'', ''local_timestamp'', ''remote_addr''],
        [GoString [], GoInt64 0, GoString []])"
    by (simp add: Save_cols_vals_def appendIfNonNil_def appendIfNonEmpty_def zero_StatsReport_def)
  have qa: "Save_query ''sqlite3'' (zero_StatsReport\<lparr>TotalUsers := Some 0\<rparr>)
     = ''INSERT INTO stats ('' @ [CHR 0x0A, CHR 0x09, CHR 0x09, CHR 0x09]
          @ ''homeserver, local_timestamp, remote_addr, total_users''
          @ [CHR 0x0A, CHR 0x09, CHR 0x09] @ '') VALUES ($1, $2, $3, $4)''"
    unfolding t [THEN conjunct2, THEN conjunct2, THEN conjunct1]
    by (simp add: Save_cols_def Save_vals_def cva valuePlaceholders_def Itoa.simps digit_def)
  have qb: "Save_query ''sqlite3'' zero_StatsReport
     = ''INSERT INTO stats ('' @ [CHR 0x0A, CHR 0x09, CHR 0x09, CHR 0x09]
          @ ''homeserver, local_timestamp, remote_addr''
          @ [CHR 0x0A, CHR 0x09, CHR 0x09] @ '') VALUES ($1, $2, $3)''"
    unfolding t [THEN conjunct2, THEN conjunct2, THEN conjunct2, THEN conjunct1]
    by (simp add: Save_cols_def Save_vals_def cvb valuePlaceholders_def Itoa.simps digit_def)
  have ea: "Execs (snd (Save accepting_engine ''sqlite3'' (zero_StatsReport\<lparr>TotalUsers := Some 0\<rparr>)
        \<lparr>DB = \<lparr>has_table = True, rows = []\<rparr>, Execs = [], Log = []\<rparr>))
      = [(''INSERT INTO stats ('' @ [CHR 0x0A, CHR 0x09, CHR 0x09, CHR 0x09]
          @ ''homeserver, local_timestamp, remote_addr, total_users''
          @ [CHR 0x0A, CHR 0x09, CHR 0x09] @ '') VALUES ($1, $2, $3, $4)'',
          [GoString [], GoInt64 0, GoString [], GoInt64Ptr 0])]"
    unfolding t [THEN conjunct1] qa by (simp add: Save_vals_def cva)
  have eb: "Execs (snd (Save accepting_engine ''sqlite3'' zero_StatsReport
        \<lparr>DB = \<lparr>has_table = True, rows = []\<rparr>, Execs = [], Log = []\<rparr>))
      = [(''INSERT INTO stats ('' @ [CHR 0x0A, CHR 0x09, CHR 0x09, CHR 0x09]
          @ ''homeserver, local_timestamp, remote_addr''
          @ [CHR 0x0A, CHR 0x09, CHR 0x09] @ '') VALUES ($1, $2, $3)'',
          [GoString [], GoInt64 0, GoString []])]"
    unfolding t [THEN conjunct2, THEN conjunct1] qb by (simp add: Save_vals_def cvb)
  from bspec [OF t [THEN conjunct2, THEN conjunct2, THEN conjunct2, THEN conjunct2] m] a b
  have "''total_users'' \<in> set (Save_cols (zero_StatsReport\<lparr>TotalUsers := Some 0\<rparr>))
   \<and> map_of (zip (Save_cols (zero_StatsReport\<lparr>TotalUsers := Some 0\<rparr>))
         (Save_vals (zero_StatsReport\<lparr>TotalUsers := Some 0\<rparr>))) ''total_users''
       = Some (GoInt64Ptr 0)
   \<and> ''total_users'' \<notin> set (Save_cols zero_StatsReport)
   \<and> set (Save_cols (zero_StatsReport\<lparr>TotalUsers := Some 0\<rparr>)) \<noteq> set (Save_cols zero_StatsReport)"
    by simp
  with m a b ea eb show ?thesis by blast
qed

section \<open>The handler and schema provisioning\<close>

lemma logAndReplyError_fresh:
  \<open>logAndReplyError newResponseWriter err code description s =
     (\<lparr>wroteHeader = True, status = code,
       written = ''{"error_message": "unable to process request"}''\<rparr>,
      s\<lparr>Log := Log s @ [(description, err)]\<rparr>)\<close>
  by (simp add: logAndReplyError_def WriteHeader_def WriteString_def newResponseWriter_def)

text \<open>
  C6. A request whose body does not decode is answered with status 400 and the fixed
  body, and no statement is executed. A request whose body decodes and whose insert
  the engine refuses, so that \<^verbatim>\<open>Save\<close> returns the error, is answered with status 500
  and the same fixed body, after exactly one call of \<^verbatim>\<open>Exec\<close>. In both cases the
  response is the same whatever the error is; the error goes to the log only.
\<close>

theorem Handle_failure_replies:
  \<open>(Decode (req_Body req) = Inl e \<longrightarrow>
      fst (Handle exec d now newResponseWriter req s) =
        \<lparr>wroteHeader = True, status = 400,
         written = ''{"error_message": "unable to process request"}''\<rparr>
      \<and> Execs (snd (Handle exec d now newResponseWriter req s)) = Execs s
      \<and> DB (snd (Handle exec d now newResponseWriter req s)) = DB s
      \<and> Log (snd (Handle exec d now newResponseWriter req s)) =
          Log s @ [(''Error decoding JSON'', e)])
   \<and> (Decode (req_Body req) = Inr sr \<longrightarrow>
      sr' = sr\<lparr>LocalTimestamp := now, RemoteAddr := req_RemoteAddr req,
              XForwardedFor := Header_Get (req_Header req) ''X-Forwarded-For'',
              UserAgent := Header_Get (req_Header req) ''User-Agent''\<rparr> \<longrightarrow>
      fst (exec (Save_query d sr') (Save_vals sr') (DB s)) = Some e \<longrightarrow>
      fst (Save exec d sr' s) = Some e
      \<and> fst (Handle exec d now newResponseWriter req s) =
        \<lparr>wroteHeader = True, status = 500,
         written = ''{"error_message": "unable to process request"}''\<rparr>
      \<and> Execs (snd (Handle exec d now newResponseWriter req s)) =
          Execs s @ [(Save_query d sr', Save_vals sr')]
      \<and> DB (snd (Handle exec d now newResponseWriter req s)) =
          snd (exec (Save_query d sr') (Save_vals sr') (DB s))
      \<and> Log (snd (Handle exec d now newResponseWriter req s)) =
          Log s @ [(''Error saving to DB'', e)])\<close>
proof (intro conjI impI)
  assume dec: "Decode (req_Body req) = Inl e"
  then have h: "Handle exec d now newResponseWriter req s =
      logAndReplyError newResponseWriter e 400 ''Error decoding JSON'' s"
    by (simp add: Handle_def)
  show \<open>fst (Handle exec d now newResponseWriter req s) =
        \<lparr>wroteHeader = True, status = 400,
         written = ''{"error_message": "unable to process request"}''\<rparr>\<close>
    by (simp add: h logAndReplyError_fresh)
  show "Execs (snd (Handle exec d now newResponseWriter req s)) = Execs s"
    by (simp add: h logAndReplyError_fresh)
  show "DB (snd (Handle exec d now newResponseWriter req s)) = DB s"
    by (simp add: h logAndReplyError_fresh)
  show "Log (snd (Handle exec d now newResponseWriter req s)) =
          Log s @ [(''Error decoding JSON'', e)]"
    by (simp add: h logAndReplyError_fresh)
next
  assume dec: "Decode (req_Body req) = Inr sr"
    and sr': "sr' = sr\<lparr>LocalTimestamp := now, RemoteAddr := req_RemoteAddr req,
              XForwardedFor := Header_Get (req_Header req) ''X-Forwarded-For'',
              UserAgent := Header_Get (req_Header req) ''User-Agent''\<rparr>"
    and refused: "fst (exec (Save_query d sr') (Save_vals sr') (DB s)) = Some e"
  from refused show fail: "fst (Save exec d sr' s) = Some e"
    by (simp add: Save_result)
  obtain t where sv: "Save exec d sr' s = (Some e, t)"
    using fail by (cases "Save exec d sr' s") simp
  have h: "Handle exec d now newResponseWriter req s =
      logAndReplyError newResponseWriter e 500 ''Error saving to DB'' t"
    using dec sv by (simp add: Handle_def sr')
  have t: "t = snd (Save exec d sr' s)"
    by (simp add: sv)
  show \<open>fst (Handle exec d now newResponseWriter req s) =
        \<lparr>wroteHeader = True, status = 500,
         written = ''{"error_message": "unable to process request"}''\<rparr>\<close>
    by (simp add: h logAndReplyError_fresh)
  show "Execs (snd (Handle exec d now newResponseWriter req s)) =
          Execs s @ [(Save_query d sr', Save_vals sr')]"
    by (simp add: h logAndReplyError_fresh t Save_Execs)
  show "DB (snd (Handle exec d now newResponseWriter req s)) =
          snd (exec (Save_query d sr') (Save_vals sr') (DB s))"
    by (simp add: h logAndReplyError_fresh t Save_result)
  show "Log (snd (Handle exec d now newResponseWriter req s)) =
          Log s @ [(''Error saving to DB'', e)]"
    by (simp add: h logAndReplyError_fresh t Save_Log)
qed

theorem Handle_failure_replies_witness:
  "Decode (req_Body \<lparr>req_Body = Inr (JObject [(''Homeserver'', JBool True)]),
       req_RemoteAddr = ''10.0.0.1:4000'', req_Header = []\<rparr>)
     = Inl (UnmarshalTypeError ''Homeserver'')
   \<and> status (fst (Handle accepting_engine ''sqlite3'' 1500000000 newResponseWriter
       \<lparr>req_Body = Inr (JObject [(''Homeserver'', JBool True)]),
        req_RemoteAddr = ''10.0.0.1:4000'', req_Header = []\<rparr>
       \<lparr>DB = \<lparr>has_table = True, rows = []\<rparr>, Execs = [], Log = []\<rparr>)) = 400
   \<and> Execs (snd (Handle accepting_engine ''sqlite3'' 1500000000 newResponseWriter
       \<lparr>req_Body = Inr (JObject [(''Homeserver'', JBool True)]),
        req_RemoteAddr = ''10.0.0.1:4000'', req_Header = []\<rparr>
       \<lparr>DB = \<lparr>has_table = True, rows = []\<rparr>, Execs = [], Log = []\<rparr>)) = []
   \<and> Decode (req_Body \<lparr>req_Body = Inr (JObject [(''Homeserver'', JString ''a.example'')]),
       req_RemoteAddr = ''10.0.0.1:4000'', req_Header = []\<rparr>)
     = Inr (zero_StatsReport\<lparr>Homeserver := ''a.example''\<rparr>)
   \<and> status (fst (Handle unreachable_engine ''sqlite3'' 1500000000 newResponseWriter
       \<lparr>req_Body = Inr (JObject [(''Homeserver'', JString ''a.example'')]),
        req_RemoteAddr = ''10.0.0.1:4000'', req_Header = []\<rparr>
       \<lparr>DB = \<lparr>has_table = True, rows = []\<rparr>, Execs = [], Log = []\<rparr>)) = 500
   \<and> length (Execs (snd (Handle unreachable_engine ''sqlite3'' 1500000000 newResponseWriter
       \<lparr>req_Body = Inr (JObject [(''Homeserver'', JString ''a.example'')]),
        req_RemoteAddr = ''10.0.0.1:4000'', req_Header = []\<rparr>
       \<lparr>DB = \<lparr>has_table = True, rows = []\<rparr>, Execs = [], Log = []\<rparr>))) = 1"
proof -
  have d1: "Decode (req_Body \<lparr>req_Body = Inr (JObject [(''Homeserver'', JBool True)]),
       req_RemoteAddr = ''10.0.0.1:4000'', req_Header = []\<rparr>)
     = Inl (UnmarshalTypeError ''Homeserver'')"
    by (simp add: Decode_def findField_def json_keys_def store_string_def)
  have d2: "Decode (req_Body \<lparr>req_Body = Inr (JObject [(''Homeserver'', JString ''a.example'')]),
       req_RemoteAddr = ''10.0.0.1:4000'', req_Header = []\<rparr>)
     = Inr (zero_StatsReport\<lparr>Homeserver := ''a.example''\<rparr>)"
    by (simp add: Decode_def findField_def json_keys_def store_string_def)
  have f2: "fst (unreachable_engine query args
       (DB \<lparr>DB = \<lparr>has_table = True, rows = []\<rparr>, Execs = [], Log = []\<rparr>))
     = Some (DriverError ''connection refused'')" for query args
    by (simp add: unreachable_engine_def)
  note a = Handle_failure_replies [THEN conjunct1, rule_format, OF d1,
      of accepting_engine "''sqlite3''" 1500000000
        "\<lparr>DB = \<lparr>has_table = True, rows = []\<rparr>, Execs = [], Log = []\<rparr>"]
  note b = Handle_failure_replies [where exec = unreachable_engine and d = "''sqlite3''"
      and now = 1500000000
      and s = "\<lparr>DB = \<lparr>has_table = True, rows = []\<rparr>, Execs = [], Log = []\<rparr>",
      THEN conjunct2, rule_format, OF d2 refl f2]
  from a b d1 d2 show ?thesis by simp
qed

lemma logAndReplyError_Execs: "Execs (snd (logAndReplyError w err code description s)) = Execs s"
  by (simp add: logAndReplyError_def)

lemma Handle_Execs:
  assumes "Decode (req_Body req) = Inr sr"
  shows "Execs (snd (Handle exec d now w req s)) =
     Execs s @ [(Save_query d (sr\<lparr>LocalTimestamp := now, RemoteAddr := req_RemoteAddr req,
              XForwardedFor := Header_Get (req_Header req) ''X-Forwarded-For'',
              UserAgent := Header_Get (req_Header req) ''User-Agent''\<rparr>),
         Save_vals (sr\<lparr>LocalTimestamp := now, RemoteAddr := req_RemoteAddr req,
              XForwardedFor := Header_Get (req_Header req) ''X-Forwarded-For'',
              UserAgent := Header_Get (req_Header req) ''User-Agent''\<rparr>))]"
proof -
  define sr' where "sr' = sr\<lparr>LocalTimestamp := now, RemoteAddr := req_RemoteAddr req,
              XForwardedFor := Header_Get (req_Header req) ''X-Forwarded-For'',
              UserAgent := Header_Get (req_Header req) ''User-Agent''\<rparr>"
  obtain r t where sv: "Save exec d sr' s = (r, t)"
    by (cases "Save exec d sr' s")
  have t: "Execs t = Execs s @ [(Save_query d sr', Save_vals sr')]"
    using Save_Execs [of exec d sr' s] by (simp add: sv)
  have "Execs (snd (Handle exec d now w req s)) = Execs t"
    using assms sv unfolding sr'_def
    by (cases r) (simp_all add: Handle_def logAndReplyError_Execs)
  with t show ?thesis by (simp add: sr'_def)
qed

lemma map_of_Save_pairs_fixed:
  shows "map_of (Save_pairs sr) ''homeserver'' = Some (GoString (Homeserver sr))"
    and "map_of (Save_pairs sr) ''local_timestamp'' = Some (GoInt64 (LocalTimestamp sr))"
    and "map_of (Save_pairs sr) ''remote_addr'' = Some (GoString (RemoteAddr sr))"
    and "map_of (Save_pairs sr) ''forwarded_for'' =
      (if XForwardedFor sr = [] then None else Some (GoString (XForwardedFor sr)))"
    and "map_of (Save_pairs sr) ''user_agent'' =
      (if UserAgent sr = [] then None else Some (GoString (UserAgent sr)))"
  unfolding Save_pairs_def
  by (simp_all add: map_of_opt_int map_of_opt_str map_of_opt_str_last del: map_of_append)

text \<open>
  C9. When the body decodes, the handler makes one call of \<^verbatim>\<open>Exec\<close>, for the report
  whose four injected fields come from the engine and the transport:
  \<open>local_timestamp\<close> is bound to the receipt time, \<open>remote_addr\<close> to the peer address,
  and \<open>forwarded_for\<close> and \<open>user_agent\<close> are columns exactly when the header is
  non-empty, bound to the header's (first) value. Whatever the body gave for these four
  fields is overwritten: a body that decodes to the same report up to these four fields
  makes the handler do exactly the same.
\<close>

theorem injected_fields_from_request:
  assumes dec: "Decode (req_Body req) = Inr sr"
    and sr': "sr' = sr\<lparr>LocalTimestamp := now, RemoteAddr := req_RemoteAddr req,
              XForwardedFor := Header_Get (req_Header req) ''X-Forwarded-For'',
              UserAgent := Header_Get (req_Header req) ''User-Agent''\<rparr>"
  shows "Execs (snd (Handle exec d now w req s)) = Execs s @ [(Save_query d sr', Save_vals sr')]
    \<and> Save_query d sr' =
        ''INSERT INTO stats ('' @ [CHR 0x0A, CHR 0x09, CHR 0x09, CHR 0x09]
        @ Join (Save_cols sr') '', ''
        @ [CHR 0x0A, CHR 0x09, CHR 0x09] @ '') VALUES (''
        @ Join (valuePlaceholders d (Save_vals sr')) '', '' @ '')''
    \<and> map_of (zip (Save_cols sr') (Save_vals sr')) ''local_timestamp'' = Some (GoInt64 now)
    \<and> map_of (zip (Save_cols sr') (Save_vals sr')) ''remote_addr''
        = Some (GoString (req_RemoteAddr req))
    \<and> map_of (zip (Save_cols sr') (Save_vals sr')) ''forwarded_for''
        = (if Header_Get (req_Header req) ''X-Forwarded-For'' = [] then None
           else Some (GoString (Header_Get (req_Header req) ''X-Forwarded-For'')))
    \<and> map_of (zip (Save_cols sr') (Save_vals sr')) ''user_agent''
        = (if Header_Get (req_Header req) ''User-Agent'' = [] then None
           else Some (GoString (Header_Get (req_Header req) ''User-Agent'')))
    \<and> (map_of (req_Header req) ''X-Forwarded-For'' = None \<longrightarrow>
          map_of (zip (Save_cols sr') (Save_vals sr')) ''forwarded_for'' = None)
    \<and> (\<forall>x xs. map_of (req_Header req) ''X-Forwarded-For'' = Some (x # xs) \<longrightarrow>
          map_of (zip (Save_cols sr') (Save_vals sr')) ''forwarded_for''
            = (if x = [] then None else Some (GoString x)))
    \<and> (map_of (req_Header req) ''User-Agent'' = None \<longrightarrow>
          map_of (zip (Save_cols sr') (Save_vals sr')) ''user_agent'' = None)
    \<and> (\<forall>x xs. map_of (req_Header req) ''User-Agent'' = Some (x # xs) \<longrightarrow>
          map_of (zip (Save_cols sr') (Save_vals sr')) ''user_agent''
            = (if x = [] then None else Some (GoString x)))
    \<and> (\<forall>body' lt ra xf ua.
          Decode body' = Inr (sr\<lparr>LocalTimestamp := lt, RemoteAddr := ra,
                                 XForwardedFor := xf, UserAgent := ua\<rparr>) \<longrightarrow>
          Handle exec d now w (req\<lparr>req_Body := body'\<rparr>) s = Handle exec d now w req s)"
proof (intro conjI allI impI)
  show "Execs (snd (Handle exec d now w req s)) = Execs s @ [(Save_query d sr', Save_vals sr')]"
    unfolding sr' by (rule Handle_Execs [OF dec])
  show "Save_query d sr' =
        ''INSERT INTO stats ('' @ [CHR 0x0A, CHR 0x09, CHR 0x09, CHR 0x09]
        @ Join (Save_cols sr') '', ''
        @ [CHR 0x0A, CHR 0x09, CHR 0x09] @ '') VALUES (''
        @ Join (valuePlaceholders d (Save_vals sr')) '', '' @ '')''"
    by (rule Save_query_text)
  show "map_of (zip (Save_cols sr') (Save_vals sr')) ''local_timestamp'' = Some (GoInt64 now)"
    by (simp add: zip_Save map_of_Save_pairs_fixed sr')
  show "map_of (zip (Save_cols sr') (Save_vals sr')) ''remote_addr''
        = Some (GoString (req_RemoteAddr req))"
    by (simp add: zip_Save map_of_Save_pairs_fixed sr')
  show "map_of (zip (Save_cols sr') (Save_vals sr')) ''forwarded_for''
        = (if Header_Get (req_Header req) ''X-Forwarded-For'' = [] then None
           else Some (GoString (Header_Get (req_Header req) ''X-Forwarded-For'')))"
    by (simp add: zip_Save map_of_Save_pairs_fixed sr')
  show "map_of (zip (Save_cols sr') (Save_vals sr')) ''user_agent''
        = (if Header_Get (req_Header req) ''User-Agent'' = [] then None
           else Some (GoString (Header_Get (req_Header req) ''User-Agent'')))"
    by (simp add: zip_Save map_of_Save_pairs_fixed sr')
next
  assume "map_of (req_Header req) ''X-Forwarded-For'' = None"
  then show "map_of (zip (Save_cols sr') (Save_vals sr')) ''forwarded_for'' = None"
    by (simp add: zip_Save map_of_Save_pairs_fixed sr' Header_Get_def)
next
  fix x xs
  assume "map_of (req_Header req) ''X-Forwarded-For'' = Some (x # xs)"
  then show "map_of (zip (Save_cols sr') (Save_vals sr')) ''forwarded_for''
            = (if x = [] then None else Some (GoString x))"
    by (simp add: zip_Save map_of_Save_pairs_fixed sr' Header_Get_def)
next
  assume "map_of (req_Header req) ''User-Agent'' = None"
  then show "map_of (zip (Save_cols sr') (Save_vals sr')) ''user_agent'' = None"
    by (simp add: zip_Save map_of_Save_pairs_fixed sr' Header_Get_def)
next
  fix x xs
  assume "map_of (req_Header req) ''User-Agent'' = Some (x # xs)"
  then show "map_of (zip (Save_cols sr') (Save_vals sr')) ''user_agent''
            = (if x = [] then None else Some (GoString x))"
    by (simp add: zip_Save map_of_Save_pairs_fixed sr' Header_Get_def)
next
  fix body' lt ra xf ua
  assume "Decode body' = Inr (sr\<lparr>LocalTimestamp := lt, RemoteAddr := ra,
                                 XForwardedFor := xf, UserAgent := ua\<rparr>)"
  then show "Handle exec d now w (req\<lparr>req_Body := body'\<rparr>) s = Handle exec d now w req s"
    using dec by (simp add: Handle_def)
qed

theorem injected_fields_from_request_witness:
  "Decode (req_Body \<lparr>req_Body = Inr (JObject [(''Homeserver'', JString ''a.example''),
           (''RemoteAddr'', JString ''spoofed''), (''UserAgent'', JString ''spoofed'')]),
       req_RemoteAddr = ''10.0.0.1:4000'', req_Header = [(''User-Agent'', [''Synapse''])]\<rparr>)
     = Inr (zero_StatsReport\<lparr>Homeserver := ''a.example'', RemoteAddr := ''spoofed'',
         UserAgent := ''spoofed''\<rparr>)
   \<and> map snd (Execs (snd (Handle accepting_engine ''sqlite3'' 1500000000 newResponseWriter
       \<lparr>req_Body = Inr (JObject [(''Homeserver'', JString ''a.example''),
           (''RemoteAddr'', JString ''spoofed''), (''UserAgent'', JString ''spoofed'')]),
        req_RemoteAddr = ''10.0.0.1:4000'', req_Header = [(''User-Agent'', [''Synapse''])]\<rparr>
       \<lparr>DB = \<lparr>has_table = True, rows = []\<rparr>, Execs = [], Log = []\<rparr>)))
     = [[GoString ''a.example'', GoInt64 1500000000, GoString ''10.0.0.1:4000'',
         GoString ''Synapse'']]
   \<and> Handle accepting_engine ''sqlite3'' 1500000000 newResponseWriter
       \<lparr>req_Body = Inr (JObject [(''Homeserver'', JString ''a.example''),
           (''RemoteAddr'', JString ''spoofed''), (''UserAgent'', JString ''spoofed'')]),
        req_RemoteAddr = ''10.0.0.1:4000'', req_Header = [(''User-Agent'', [''Synapse''])]\<rparr>
       \<lparr>DB = \<lparr>has_table = True, rows = []\<rparr>, Execs = [], Log = []\<rparr>
     = Handle accepting_engine ''sqlite3'' 1500000000 newResponseWriter
       \<lparr>req_Body = Inr (JObject [(''Homeserver'', JString ''a.example'')]),
        req_RemoteAddr = ''10.0.0.1:4000'', req_Header = [(''User-Agent'', [''Synapse''])]\<rparr>
       \<lparr>DB = \<lparr>has_table = True, rows = []\<rparr>, Execs = [], Log = []\<rparr>"
proof -
  have d: "Decode (req_Body \<lparr>req_Body = Inr (JObject [(''Homeserver'', JString ''a.example''),
           (''RemoteAddr'', JString ''spoofed''), (''UserAgent'', JString ''spoofed'')]),
       req_RemoteAddr = ''10.0.0.1:4000'', req_Header = [(''User-Agent'', [''Synapse''])]\<rparr>)
     = Inr (zero_StatsReport\<lparr>Homeserver := ''a.example'', RemoteAddr := ''spoofed'',
         UserAgent := ''spoofed''\<rparr>)"
    by (simp add: Decode_def findField_def json_keys_def store_string_def)
  note e = injected_fields_from_request [OF d refl, THEN conjunct1,
      of accepting_engine "''sqlite3''" 1500000000 newResponseWriter
        "\<lparr>DB = \<lparr>has_table = True, rows = []\<rparr>, Execs = [], Log = []\<rparr>"]
  have v: "Save_vals (zero_StatsReport\<lparr>Homeserver := ''a.example'', RemoteAddr := ''spoofed'',
         UserAgent := ''spoofed'', LocalTimestamp := 1500000000,
         RemoteAddr := ''10.0.0.1:4000'', XForwardedFor := [], UserAgent := ''Synapse''\<rparr>)
     = [GoString ''a.example'', GoInt64 1500000000, GoString ''10.0.0.1:4000'',
         GoString ''Synapse'']"
    by (simp add: Save_vals_def Save_cols_vals_def appendIfNonNil_def appendIfNonEmpty_def
        zero_StatsReport_def)
  from e v have r: "map snd (Execs (snd (Handle accepting_engine ''sqlite3'' 1500000000
       newResponseWriter
       \<lparr>req_Body = Inr (JObject [(''Homeserver'', JString ''a.example''),
           (''RemoteAddr'', JString ''spoofed''), (''UserAgent'', JString ''spoofed'')]),
        req_RemoteAddr = ''10.0.0.1:4000'', req_Header = [(''User-Agent'', [''Synapse''])]\<rparr>
       \<lparr>DB = \<lparr>has_table = True, rows = []\<rparr>, Execs = [], Log = []\<rparr>)))
     = [[GoString ''a.example'', GoInt64 1500000000, GoString ''10.0.0.1:4000'',
         GoString ''Synapse'']]"
    by (simp add: Header_Get_def)
  have plain: "Decode (req_Body \<lparr>req_Body = Inr (JObject [(''Homeserver'', JString ''a.example'')]),
       req_RemoteAddr = ''10.0.0.1:4000'', req_Header = [(''User-Agent'', [''Synapse''])]\<rparr>)
     = Inr (zero_StatsReport\<lparr>Homeserver := ''a.example''\<rparr>)"
    by (simp add: Decode_def findField_def json_keys_def store_string_def)
  have spoofed: "Decode (Inr (JObject [(''Homeserver'', JString ''a.example''),
           (''RemoteAddr'', JString ''spoofed''), (''UserAgent'', JString ''spoofed'')]))
     = Inr (zero_StatsReport\<lparr>Homeserver := ''a.example'', LocalTimestamp := 0,
         RemoteAddr := ''spoofed'', XForwardedFor := [], UserAgent := ''spoofed''\<rparr>)"
    by (simp add: Decode_def findField_def json_keys_def store_string_def zero_StatsReport_def)
  note n = injected_fields_from_request [OF plain refl,
      of accepting_engine "''sqlite3''" 1500000000 newResponseWriter
        "\<lparr>DB = \<lparr>has_table = True, rows = []\<rparr>, Execs = [], Log = []\<rparr>",
      THEN conjunct2, THEN conjunct2, THEN conjunct2, THEN conjunct2, THEN conjunct2,
      THEN conjunct2, THEN conjunct2, THEN conjunct2, THEN conjunct2, THEN conjunct2,
      THEN spec, THEN spec, THEN spec, THEN spec, THEN spec, THEN mp, OF spoofed]
  from n have same: "Handle accepting_engine ''sqlite3'' 1500000000 newResponseWriter
       \<lparr>req_Body = Inr (JObject [(''Homeserver'', JString ''a.example''),
           (''RemoteAddr'', JString ''spoofed''), (''UserAgent'', JString ''spoofed'')]),
        req_RemoteAddr = ''10.0.0.1:4000'', req_Header = [(''User-Agent'', [''Synapse''])]\<rparr>
       \<lparr>DB = \<lparr>has_table = True, rows = []\<rparr>, Execs = [], Log = []\<rparr>
     = Handle accepting_engine ''sqlite3'' 1500000000 newResponseWriter
       \<lparr>req_Body = Inr (JObject [(''Homeserver'', JString ''a.example'')]),
        req_RemoteAddr = ''10.0.0.1:4000'', req_Header = [(''User-Agent'', [''Synapse''])]\<rparr>
       \<lparr>DB = \<lparr>has_table = True, rows = []\<rparr>, Execs = [], Log = []\<rparr>"
    by simp
  from d r same show ?thesis by (intro conjI)
qed

lemma createTable_query_prefix:
  "prefix ''CREATE TABLE IF NOT EXISTS stats('' (createTable_query a)"
  by (simp add: createTable_query_def)

lemma createTable_Execs:
  "Execs (snd (createTable exec d s)) =
     Execs s @ [(createTable_query (if d = ''mysql'' then ''AUTO_INCREMENT'' else ''AUTOINCREMENT''), [])]"
  by (simp add: createTable_def DB_Exec_def Let_def split: prod.split)

lemma createTable_exec:
  "fst (createTable exec d s) =
     fst (exec (createTable_query (if d = ''mysql'' then ''AUTO_INCREMENT'' else ''AUTOINCREMENT'')) []
       (DB s))
   \<and> DB (snd (createTable exec d s)) =
     snd (exec (createTable_query (if d = ''mysql'' then ''AUTO_INCREMENT'' else ''AUTOINCREMENT'')) []
       (DB s))"
  by (simp add: createTable_def DB_Exec_def Let_def split: prod.split)

text \<open>
  C7. \<^verbatim>\<open>createTable\<close> makes one call of \<^verbatim>\<open>Exec\<close>, with a statement that starts with
  \<open>CREATE TABLE IF NOT EXISTS stats(\<close> and no arguments, and returns the engine's error.
  The effect of the statement is the engine's: for every engine that honours
  \<open>IF NOT EXISTS\<close> (on a state where the table exists the statement succeeds and changes
  nothing; after a success the table exists), \<^verbatim>\<open>createTable\<close> on an existing table
  succeeds and leaves the engine's state as it is, and after one successful run any
  number of further runs succeed and leave the state as the first run left it.
\<close>

theorem createTable_idempotent:
  assumes keep: "\<And>query db. prefix ''CREATE TABLE IF NOT EXISTS stats('' query \<Longrightarrow>
        has_stats db \<Longrightarrow> exec query [] db = (None, db)"
    and make: "\<And>query db db'. prefix ''CREATE TABLE IF NOT EXISTS stats('' query \<Longrightarrow>
        exec query [] db = (None, db') \<Longrightarrow> has_stats db'"
  shows "Execs (snd (createTable exec d s)) =
        Execs s @ [(createTable_query
          (if d = ''mysql'' then ''AUTO_INCREMENT'' else ''AUTOINCREMENT''), [])]
    \<and> prefix ''CREATE TABLE IF NOT EXISTS stats(''
        (createTable_query (if d = ''mysql'' then ''AUTO_INCREMENT'' else ''AUTOINCREMENT''))
    \<and> fst (createTable exec d s) =
        fst (exec (createTable_query
          (if d = ''mysql'' then ''AUTO_INCREMENT'' else ''AUTOINCREMENT'')) [] (DB s))
    \<and> (has_stats (DB s) \<longrightarrow>
          fst (createTable exec d s) = None \<and> DB (snd (createTable exec d s)) = DB s)
    \<and> (fst (createTable exec d s) = None \<longrightarrow>
          (\<forall>n. fst (createTable exec d (((\<lambda>t. snd (createTable exec d t)) ^^ n)
                     (snd (createTable exec d s)))) = None
             \<and> DB (((\<lambda>t. snd (createTable exec d t)) ^^ n) (snd (createTable exec d s)))
                = DB (snd (createTable exec d s))))"
proof (intro conjI impI allI)
  show "Execs (snd (createTable exec d s)) =
        Execs s @ [(createTable_query
          (if d = ''mysql'' then ''AUTO_INCREMENT'' else ''AUTOINCREMENT''), [])]"
    by (rule createTable_Execs)
  show "prefix ''CREATE TABLE IF NOT EXISTS stats(''
        (createTable_query (if d = ''mysql'' then ''AUTO_INCREMENT'' else ''AUTOINCREMENT''))"
    by (rule createTable_query_prefix)
  show "fst (createTable exec d s) =
        fst (exec (createTable_query
          (if d = ''mysql'' then ''AUTO_INCREMENT'' else ''AUTOINCREMENT'')) [] (DB s))"
    by (rule createTable_exec [THEN conjunct1])
next
  have existing: "fst (createTable exec d t) = None \<and> DB (snd (createTable exec d t)) = DB t"
    if "has_stats (DB t)" for t :: "'a Server"
    using keep [OF createTable_query_prefix that] createTable_exec [of exec d t] by simp
  have created: "has_stats (DB (snd (createTable exec d t)))"
    if "fst (createTable exec d t) = None" for t :: "'a Server"
  proof -
    obtain r db' where e: "exec (createTable_query
        (if d = ''mysql'' then ''AUTO_INCREMENT'' else ''AUTOINCREMENT'')) [] (DB t) = (r, db')"
      by (cases "exec (createTable_query
        (if d = ''mysql'' then ''AUTO_INCREMENT'' else ''AUTOINCREMENT'')) [] (DB t)")
    with that createTable_exec [of exec d t] have "r = None" and "DB (snd (createTable exec d t)) = db'"
      by simp_all
    with make [OF createTable_query_prefix] e show ?thesis by simp
  qed
  {
    assume "has_stats (DB s)"
    then show "fst (createTable exec d s) = None" and "DB (snd (createTable exec d s)) = DB s"
      using existing by simp_all
  }
  {
    fix n
    assume first: "fst (createTable exec d s) = None"
    have again: "has_stats (DB (((\<lambda>t. snd (createTable exec d t)) ^^ n) (snd (createTable exec d s))))
        \<and> DB (((\<lambda>t. snd (createTable exec d t)) ^^ n) (snd (createTable exec d s)))
           = DB (snd (createTable exec d s))"
    proof (induction n)
      case 0
      show ?case using created [OF first] by simp
    next
      case (Suc n)
      let ?t = "((\<lambda>t. snd (createTable exec d t)) ^^ n) (snd (createTable exec d s))"
      from Suc have h: "has_stats (DB ?t)"
        by (rule conjunct1)
      from Suc have e: "DB ?t = DB (snd (createTable exec d s))"
        by (rule conjunct2)
      from existing [OF h] have "DB (snd (createTable exec d ?t)) = DB ?t"
        by simp
      with h e show ?case by simp
    qed
    then have h: "has_stats (DB (((\<lambda>t. snd (createTable exec d t)) ^^ n)
        (snd (createTable exec d s))))"
      by (rule conjunct1)
    from again show "DB (((\<lambda>t. snd (createTable exec d t)) ^^ n) (snd (createTable exec d s)))
                = DB (snd (createTable exec d s))"
      by (rule conjunct2)
    from existing [OF h] show "fst (createTable exec d (((\<lambda>t. snd (createTable exec d t)) ^^ n)
                     (snd (createTable exec d s)))) = None"
      by (rule conjunct1)
  }
qed

theorem createTable_idempotent_witness:
  "has_table (DB \<lparr>DB = \<lparr>has_table = True, rows = []\<rparr>, Execs = [], Log = []\<rparr>)
   \<and> fst (createTable accepting_engine ''sqlite3''
        \<lparr>DB = \<lparr>has_table = True, rows = []\<rparr>, Execs = [], Log = []\<rparr>) = None
   \<and> DB (snd (createTable accepting_engine ''sqlite3''
        \<lparr>DB = \<lparr>has_table = True, rows = []\<rparr>, Execs = [], Log = []\<rparr>))
      = DB \<lparr>DB = \<lparr>has_table = True, rows = []\<rparr>, Execs = [], Log = []\<rparr>
   \<and> fst (createTable accepting_engine ''sqlite3''
        \<lparr>DB = \<lparr>has_table = False, rows = []\<rparr>, Execs = [], Log = []\<rparr>) = None
   \<and> DB (snd (createTable accepting_engine ''sqlite3''
        (snd (createTable accepting_engine ''sqlite3''
          \<lparr>DB = \<lparr>has_table = False, rows = []\<rparr>, Execs = [], Log = []\<rparr>))))
      = DB (snd (createTable accepting_engine ''sqlite3''
          \<lparr>DB = \<lparr>has_table = False, rows = []\<rparr>, Execs = [], Log = []\<rparr>))"
proof -
  have keep: "accepting_engine query [] db = (None, db)"
    if "prefix ''CREATE TABLE IF NOT EXISTS stats('' query" and "has_table db" for query db
    using that by (simp add: accepting_engine_def)
  have make: "has_table db'"
    if "prefix ''CREATE TABLE IF NOT EXISTS stats('' query"
      and "accepting_engine query [] db = (None, db')" for query db db'
    using that by (auto simp add: accepting_engine_def)
  have h: "has_table (DB \<lparr>DB = \<lparr>has_table = True, rows = []\<rparr>, Execs = [], Log = []\<rparr>)"
    by simp
  have r: "fst (createTable accepting_engine ''sqlite3''
        \<lparr>DB = \<lparr>has_table = True, rows = []\<rparr>, Execs = [], Log = []\<rparr>) = None
   \<and> DB (snd (createTable accepting_engine ''sqlite3''
        \<lparr>DB = \<lparr>has_table = True, rows = []\<rparr>, Execs = [], Log = []\<rparr>))
      = DB \<lparr>DB = \<lparr>has_table = True, rows = []\<rparr>, Execs = [], Log = []\<rparr>"
  proof (rule createTable_idempotent [where exec = accepting_engine and has_stats = has_table,
          THEN conjunct2, THEN conjunct2, THEN conjunct2, THEN conjunct1, rule_format])
    show "accepting_engine query [] db = (None, db)"
      if "prefix ''CREATE TABLE IF NOT EXISTS stats('' query" and "has_table db" for query db
      using that by (rule keep)
    show "has_table db'"
      if "prefix ''CREATE TABLE IF NOT EXISTS stats('' query"
        and "accepting_engine query [] db = (None, db')" for query db db'
      using that by (rule make)
    show "has_table (DB \<lparr>DB = \<lparr>has_table = True, rows = []\<rparr>, Execs = [], Log = []\<rparr>)"
      by (rule h)
  qed
  have f: "fst (createTable accepting_engine ''sqlite3''
        \<lparr>DB = \<lparr>has_table = False, rows = []\<rparr>, Execs = [], Log = []\<rparr>) = None"
    by (simp add: createTable_def DB_Exec_def accepting_engine_def createTable_query_def)
  have "fst (createTable accepting_engine ''sqlite3''
          (((\<lambda>t. snd (createTable accepting_engine ''sqlite3'' t)) ^^ 1)
            (snd (createTable accepting_engine ''sqlite3''
              \<lparr>DB = \<lparr>has_table = False, rows = []\<rparr>, Execs = [], Log = []\<rparr>)))) = None
      \<and> DB (((\<lambda>t. snd (createTable accepting_engine ''sqlite3'' t)) ^^ 1)
            (snd (createTable accepting_engine ''sqlite3''
              \<lparr>DB = \<lparr>has_table = False, rows = []\<rparr>, Execs = [], Log = []\<rparr>)))
        = DB (snd (createTable accepting_engine ''sqlite3''
              \<lparr>DB = \<lparr>has_table = False, rows = []\<rparr>, Execs = [], Log = []\<rparr>))"
  proof (rule createTable_idempotent [where exec = accepting_engine and has_stats = has_table,
          THEN conjunct2, THEN conjunct2, THEN conjunct2, THEN conjunct2, rule_format])
    show "accepting_engine query [] db = (None, db)"
      if "prefix ''CREATE TABLE IF NOT EXISTS stats('' query" and "has_table db" for query db
      using that by (rule keep)
    show "has_table db'"
      if "prefix ''CREATE TABLE IF NOT EXISTS stats('' query"
        and "accepting_engine query [] db = (None, db')" for query db db'
      using that by (rule make)
    show "fst (createTable accepting_engine ''sqlite3''
        \<lparr>DB = \<lparr>has_table = False, rows = []\<rparr>, Execs = [], Log = []\<rparr>) = None"
      by (rule f)
  qed
  then have twice: "DB (snd (createTable accepting_engine ''sqlite3''
        (snd (createTable accepting_engine ''sqlite3''
          \<lparr>DB = \<lparr>has_table = False, rows = []\<rparr>, Execs = [], Log = []\<rparr>))))
      = DB (snd (createTable accepting_engine ''sqlite3''
          \<lparr>DB = \<lparr>has_table = False, rows = []\<rparr>, Execs = [], Log = []\<rparr>))"
    by simp
  from h r f twice show ?thesis
    by (intro conjI) (assumption | erule conjunct1 | erule conjunct2)+
qed

section \<open>The decoder and the keys of the body\<close>










lemma setField_Homeserver:
  "setField f v sr = Some sr' \<Longrightarrow> f \<noteq> F_Homeserver \<Longrightarrow> Homeserver sr' = Homeserver sr"
  by (cases f) auto

lemma decode_object_Homeserver:
  assumes "decode_object ms sr err = (sr', err')"
    and "\<forall>(k, v) \<in> set ms. findField k \<noteq> Some F_Homeserver"
  shows "Homeserver sr' = Homeserver sr"
  using assms
proof (induction ms arbitrary: sr err)
  case Nil
  then show ?case by simp
next
  case (Cons m ms)
  obtain key v where m: "m = (key, v)" by (cases m)
  from Cons.prems(2) have rest: "\<forall>(k, v) \<in> set ms. findField k \<noteq> Some F_Homeserver"
    and this_key: "findField key \<noteq> Some F_Homeserver"
    by (simp_all add: m)
  show ?case
  proof (cases "findField key")
    case None
    with Cons.prems(1) have "decode_object ms sr err = (sr', err')"
      by (simp add: m)
    then show ?thesis by (rule Cons.IH [OF _ rest])
  next
    case (Some f)
    with this_key have f: "f \<noteq> F_Homeserver" by simp
    show ?thesis
    proof (cases "setField f v sr")
      case None
      with Cons.prems(1) Some have "decode_object ms sr
          (case err of None \<Rightarrow> Some (UnmarshalTypeError key) | Some e \<Rightarrow> Some e) = (sr', err')"
        by (simp add: m)
      then show ?thesis by (rule Cons.IH [OF _ rest])
    next
      case sr2: (Some sr2)
      with Cons.prems(1) Some have "decode_object ms sr2 err = (sr', err')"
        by (simp add: m)
      then have "Homeserver sr' = Homeserver sr2" by (rule Cons.IH [OF _ rest])
      with setField_Homeserver [OF sr2 f] show ?thesis by simp
    qed
  qed
qed

lemma Save_heads:
  "hd (Save_cols sr) = ''homeserver'' \<and> hd (Save_vals sr) = GoString (Homeserver sr)"
  by (simp add: Save_cols_pairs Save_vals_pairs Save_pairs_def)

text \<open>
  C8, as it holds of the code. Every report that the decoder gives carries a
  \<^verbatim>\<open>Homeserver\<close> string, which may be empty: the decoder does not require the key, and when no member of the
  body matches it the body is accepted all the same with the empty string. The handler
  then runs the insert, whose first column is \<open>homeserver\<close> and whose first bound value
  is that string, empty or not.
\<close>

theorem homeserver_written_even_if_empty:
  assumes dec: "Decode (req_Body req) = Inr sr"
    and sr': "sr' = sr\<lparr>LocalTimestamp := now, RemoteAddr := req_RemoteAddr req,
              XForwardedFor := Header_Get (req_Header req) ''X-Forwarded-For'',
              UserAgent := Header_Get (req_Header req) ''User-Agent''\<rparr>"
  shows "Execs (snd (Handle exec d now w req s)) = Execs s @ [(Save_query d sr', Save_vals sr')]
    \<and> Save_query d sr' =
        ''INSERT INTO stats ('' @ [CHR 0x0A, CHR 0x09, CHR 0x09, CHR 0x09]
        @ Join (Save_cols sr') '', ''
        @ [CHR 0x0A, CHR 0x09, CHR 0x09] @ '') VALUES (''
        @ Join (valuePlaceholders d (Save_vals sr')) '', '' @ '')''
    \<and> hd (Save_cols sr') = ''homeserver''
    \<and> hd (Save_vals sr') = GoString (Homeserver sr)
    \<and> (\<forall>ms. req_Body req = Inr (JObject ms) \<longrightarrow>
          (\<forall>(k, v) \<in> set ms. findField k \<noteq> Some F_Homeserver) \<longrightarrow> Homeserver sr = [])"
proof (intro conjI allI impI)
  show "Execs (snd (Handle exec d now w req s)) = Execs s @ [(Save_query d sr', Save_vals sr')]"
    unfolding sr' by (rule Handle_Execs [OF dec])
  show "Save_query d sr' =
        ''INSERT INTO stats ('' @ [CHR 0x0A, CHR 0x09, CHR 0x09, CHR 0x09]
        @ Join (Save_cols sr') '', ''
        @ [CHR 0x0A, CHR 0x09, CHR 0x09] @ '') VALUES (''
        @ Join (valuePlaceholders d (Save_vals sr')) '', '' @ '')''"
    by (rule Save_query_text)
  show "hd (Save_cols sr') = ''homeserver''"
    by (simp add: Save_heads)
  show "hd (Save_vals sr') = GoString (Homeserver sr)"
    by (simp add: Save_heads sr')
next
  fix ms
  assume body: "req_Body req = Inr (JObject ms)"
    and none: "\<forall>(k, v) \<in> set ms. findField k \<noteq> Some F_Homeserver"
  obtain sr0 err0 where d: "decode_object ms zero_StatsReport None = (sr0, err0)"
    by (cases "decode_object ms zero_StatsReport None")
  with dec body have "sr0 = sr"
    by (auto simp add: Decode_def split: option.splits)
  with decode_object_Homeserver [OF d none] show "Homeserver sr = []"
    by (simp add: zero_StatsReport_def)
qed

theorem homeserver_written_even_if_empty_witness:
  "Decode (req_Body \<lparr>req_Body = Inr (JObject [(''total_users'', JNumber ''42'')]),
       req_RemoteAddr = ''10.0.0.1:4000'', req_Header = []\<rparr>)
     = Inr (zero_StatsReport\<lparr>TotalUsers := Some 42\<rparr>)
   \<and> findField ''total_users'' = Some F_TotalUsers
   \<and> Homeserver (zero_StatsReport\<lparr>TotalUsers := Some 42\<rparr>) = []
   \<and> map snd (Execs (snd (Handle accepting_engine ''sqlite3'' 1500000000 newResponseWriter
       \<lparr>req_Body = Inr (JObject [(''total_users'', JNumber ''42'')]),
        req_RemoteAddr = ''10.0.0.1:4000'', req_Header = []\<rparr>
       \<lparr>DB = \<lparr>has_table = True, rows = []\<rparr>, Execs = [], Log = []\<rparr>)))
     = [[GoString [], GoInt64 1500000000, GoString ''10.0.0.1:4000'', GoInt64Ptr 42]]"
proof -
  have d: "Decode (req_Body \<lparr>req_Body = Inr (JObject [(''total_users'', JNumber ''42'')]),
       req_RemoteAddr = ''10.0.0.1:4000'', req_Header = []\<rparr>)
     = Inr (zero_StatsReport\<lparr>TotalUsers := Some 42\<rparr>)"
    by (simp add: Decode_def findField_def json_keys_def store_int64_ptr_def ParseInt_def
        digit_val_def)
  have n: "\<forall>(k, v) \<in> set [(''total_users'', JNumber ''42'')]. findField k \<noteq> Some F_Homeserver"
    by (simp add: findField_def json_keys_def)
  note t = homeserver_written_even_if_empty [OF d refl,
      of accepting_engine "''sqlite3''" 1500000000 newResponseWriter
        "\<lparr>DB = \<lparr>has_table = True, rows = []\<rparr>, Execs = [], Log = []\<rparr>"]
  note e = t [THEN conjunct1]
  have b: "req_Body \<lparr>req_Body = Inr (JObject [(''total_users'', JNumber ''42'')]),
       req_RemoteAddr = ''10.0.0.1:4000'', req_Header = []\<rparr>
     = Inr (JObject [(''total_users'', JNumber ''42'')])"
    by simp
  have h: "Homeserver (zero_StatsReport\<lparr>TotalUsers := Some 42\<rparr>) = []"
    by (rule t [THEN conjunct2, THEN conjunct2, THEN conjunct2, THEN conjunct2, THEN spec,
          THEN mp, THEN mp, OF b n])
  have v: "Save_vals (zero_StatsReport\<lparr>TotalUsers := Some 42, LocalTimestamp := 1500000000,
         RemoteAddr := ''10.0.0.1:4000'', XForwardedFor := [], UserAgent := []\<rparr>)
     = [GoString [], GoInt64 1500000000, GoString ''10.0.0.1:4000'', GoInt64Ptr 42]"
    by (simp add: Save_vals_def Save_cols_vals_def appendIfNonNil_def appendIfNonEmpty_def
        zero_StatsReport_def)
  have k: "findField ''total_users'' = Some F_TotalUsers"
    by (simp add: findField_def json_keys_def)
  from d k h e v show ?thesis
    by (simp add: Header_Get_def)
qed

text \<open>
  C8 does not hold with a non-empty \<^verbatim>\<open>Homeserver\<close> required: the body \<open>{}\<close> is
  accepted, its report has the empty \<^verbatim>\<open>Homeserver\<close>, and the handler inserts a row whose
  \<open>homeserver\<close> is the empty string and answers \<open>{}\<close> with status 200.
\<close>

theorem homeserver_required_counterexample:
  "Decode (Inr (JObject [])) = Inr zero_StatsReport
   \<and> Homeserver zero_StatsReport = []
   \<and> Handle accepting_engine ''sqlite3'' 1500000000 newResponseWriter
       \<lparr>req_Body = Inr (JObject []), req_RemoteAddr = ''10.0.0.1:4000'', req_Header = []\<rparr>
       \<lparr>DB = \<lparr>has_table = True, rows = []\<rparr>, Execs = [], Log = []\<rparr>
     = (\<lparr>wroteHeader = True, status = 200, written = ''{}''\<rparr>,
        \<lparr>DB = \<lparr>has_table = True,
               rows = [[GoString [], GoInt64 1500000000, GoString ''10.0.0.1:4000'']]\<rparr>,
         Execs = [(''INSERT INTO stats ('' @ [CHR 0x0A, CHR 0x09, CHR 0x09, CHR 0x09]
                   @ ''homeserver, local_timestamp, remote_addr''
                   @ [CHR 0x0A, CHR 0x09, CHR 0x09] @ '') VALUES ($1, $2, $3)'',
                   [GoString [], GoInt64 1500000000, GoString ''10.0.0.1:4000''])],
         Log = []\<rparr>)"
proof -
  have d: "Decode (Inr (JObject [])) = Inr zero_StatsReport"
    by (simp add: Decode_def)
  have z: "Homeserver zero_StatsReport = []"
    by (simp add: zero_StatsReport_def)
  have cv: "Save_cols_vals (zero_StatsReport\<lparr>LocalTimestamp := 1500000000,
         RemoteAddr := ''10.0.0.1:4000'', XForwardedFor := [], UserAgent := []\<rparr>)
     = ([''homeserver'', ''local_timestamp'', ''remote_addr''],
        [GoString [], GoInt64 1500000000, GoString ''10.0.0.1:4000''])"
    by (simp add: Save_cols_vals_def appendIfNonNil_def appendIfNonEmpty_def zero_StatsReport_def)
  have q: "Save_query ''sqlite3'' (zero_StatsReport\<lparr>LocalTimestamp := 1500000000,
         RemoteAddr := ''10.0.0.1:4000'', XForwardedFor := [], UserAgent := []\<rparr>)
     = ''INSERT INTO stats ('' @ [CHR 0x0A, CHR 0x09, CHR 0x09, CHR 0x09]
       @ ''homeserver, local_timestamp, remote_addr''
       @ [CHR 0x0A, CHR 0x09, CHR 0x09] @ '') VALUES ($1, $2, $3)''"
    by (simp add: Save_query_def Save_cols_def Save_vals_def cv valuePlaceholders_def
        Itoa.simps digit_def)
  have v: "Save_vals (zero_StatsReport\<lparr>LocalTimestamp := 1500000000,
         RemoteAddr := ''10.0.0.1:4000'', XForwardedFor := [], UserAgent := []\<rparr>)
     = [GoString [], GoInt64 1500000000, GoString ''10.0.0.1:4000'']"
    by (simp add: Save_vals_def cv)
  have h: "Handle accepting_engine ''sqlite3'' 1500000000 newResponseWriter
       \<lparr>req_Body = Inr (JObject []), req_RemoteAddr = ''10.0.0.1:4000'', req_Header = []\<rparr>
       \<lparr>DB = \<lparr>has_table = True, rows = []\<rparr>, Execs = [], Log = []\<rparr>
     = (\<lparr>wroteHeader = True, status = 200, written = ''{}''\<rparr>,
        \<lparr>DB = \<lparr>has_table = True,
               rows = [[GoString [], GoInt64 1500000000, GoString ''10.0.0.1:4000'']]\<rparr>,
         Execs = [(''INSERT INTO stats ('' @ [CHR 0x0A, CHR 0x09, CHR 0x09, CHR 0x09]
                   @ ''homeserver, local_timestamp, remote_addr''
                   @ [CHR 0x0A, CHR 0x09, CHR 0x09] @ '') VALUES ($1, $2, $3)'',
                   [GoString [], GoInt64 1500000000, GoString ''10.0.0.1:4000''])],
         Log = []\<rparr>)"
    unfolding Handle_def
    by (simp add: d Header_Get_def Save_def DB_Exec_def q v accepting_engine_def
        WriteString_def WriteHeader_def newResponseWriter_def)
  from d z h show ?thesis by (intro conjI)
qed

end
